theory Spec2Isabelle
  imports Complex_Main "HOL-Library.Sublist"
begin

section \<open>Numbers and strings of the host language\<close>

text \<open>
  A JavaScript number is an IEEE double. The model keeps the three special values the
  guards of the code can observe and idealises every finite double as the real number it
  denotes: rounding and overflow are not modelled.
\<close>

datatype number = NaN | NegInf | PosInf | Fin real

text \<open>The relational operator \<open><=\<close> on numbers: false as soon as one side is NaN.\<close>

fun num_le :: "number \<Rightarrow> number \<Rightarrow> bool" where
  "num_le NaN _ = False"
| "num_le _ NaN = False"
| "num_le NegInf _ = True"
| "num_le _ PosInf = True"
| "num_le PosInf _ = False"
| "num_le _ NegInf = False"
| "num_le (Fin a) (Fin b) = (a \<le> b)"

text \<open>The relational operator \<open><\<close> on numbers.\<close>

fun num_lt :: "number \<Rightarrow> number \<Rightarrow> bool" where
  "num_lt NaN _ = False"
| "num_lt _ NaN = False"
| "num_lt PosInf _ = False"
| "num_lt _ NegInf = False"
| "num_lt NegInf _ = True"
| "num_lt _ PosInf = True"
| "num_lt (Fin a) (Fin b) = (a < b)"

text \<open>
  \<open>String.prototype.toLowerCase\<close> and \<open>toUpperCase\<close>, on the ASCII letters; every other
  character is left as it is.
\<close>

definition lowerChar :: "char \<Rightarrow> char" where
  "lowerChar c =
     (case map_of (zip ''ABCDEFGHIJKLMNOPQRSTUVWXYZ'' ''abcdefghijklmnopqrstuvwxyz'') c of
        None \<Rightarrow> c
      | Some d \<Rightarrow> d)"

definition upperChar :: "char \<Rightarrow> char" where
  "upperChar c =
     (case map_of (zip ''abcdefghijklmnopqrstuvwxyz'' ''ABCDEFGHIJKLMNOPQRSTUVWXYZ'') c of
        None \<Rightarrow> c
      | Some d \<Rightarrow> d)"

definition toLowerCase :: "string \<Rightarrow> string" where
  "toLowerCase s = map lowerChar s"

definition toUpperCase :: "string \<Rightarrow> string" where
  "toUpperCase s = map upperChar s"

text \<open>
  \<open>String.prototype.includes\<close>: \<open>str_includes hay needle\<close> holds when the needle occurs
  as a contiguous run of the haystack.
\<close>

fun str_includes :: "string \<Rightarrow> string \<Rightarrow> bool" where
  "str_includes [] needle = (needle = [])"
| "str_includes (c # cs) needle = (prefix needle (c # cs) \<or> str_includes cs needle)"

text \<open>
  \<open>parseFloat\<close>: leading white space is dropped, then the longest prefix that is a decimal
  literal (sign, digits, fraction, exponent, or \<open>Infinity\<close>) is read; anything after it
  is ignored, and no such prefix gives NaN. The white space is the ASCII one, and a
  literal is read as its exact value: one beyond the range of doubles is not turned into
  an infinity.
\<close>

definition isWhite :: "char \<Rightarrow> bool" where
  "isWhite c = ((of_char c :: nat) \<in> {9, 10, 11, 12, 13, 32})"

definition isDigit :: "char \<Rightarrow> bool" where
  "isDigit c = (let n = (of_char c :: nat) in 48 \<le> n \<and> n \<le> 57)"

definition digitsVal :: "string \<Rightarrow> nat" where
  "digitsVal ds = foldl (\<lambda>acc c. 10 * acc + ((of_char c :: nat) - 48)) 0 ds"

definition splitSign :: "string \<Rightarrow> bool \<times> string" where
  "splitSign s =
     (case s of
        [] \<Rightarrow> (False, [])
      | c # r \<Rightarrow> if c = CHR ''-'' then (True, r) else if c = CHR ''+'' then (False, r)
                 else (False, s))"

text \<open>The exponent part counts only when at least one digit follows the \<open>e\<close> and its sign.\<close>

definition exponentPart :: "string \<Rightarrow> int" where
  "exponentPart s =
     (case s of
        [] \<Rightarrow> 0
      | c # r \<Rightarrow>
          if c = CHR ''e'' \<or> c = CHR ''E'' then
            (let (neg, t) = splitSign r; ds = takeWhile isDigit t
             in if ds = [] then 0
                else if neg then - int (digitsVal ds) else int (digitsVal ds))
          else 0)"

definition scale10 :: "real \<Rightarrow> int \<Rightarrow> real" where
  "scale10 m e = (if 0 \<le> e then m * 10 ^ nat e else m / 10 ^ nat (- e))"

definition parseFloat :: "string \<Rightarrow> number" where
  "parseFloat s =
     (let (neg, u) = splitSign (dropWhile isWhite s) in
      if prefix ''Infinity'' u then (if neg then NegInf else PosInf)
      else
        let ip = takeWhile isDigit u;
            r1 = dropWhile isDigit u;
            fp = (case r1 of [] \<Rightarrow> [] | c # r \<Rightarrow> if c = CHR ''.'' then takeWhile isDigit r else []);
            r2 = (case r1 of [] \<Rightarrow> [] | c # r \<Rightarrow> if c = CHR ''.'' then dropWhile isDigit r else r1)
        in if ip = [] \<and> fp = [] then NaN
           else
             let m = real (digitsVal (ip @ fp)) / 10 ^ length fp;
                 v = scale10 m (exponentPart r2)
             in Fin (if neg then - v else v))"

section \<open>server/storage.ts: the distance function\<close>

definition toRadians :: "real \<Rightarrow> real" where
  "toRadians degrees = degrees * (pi / 180)"

text \<open>\<open>Math.atan2(y, x)\<close> on finite arguments.\<close>

definition Math_atan2 :: "real \<Rightarrow> real \<Rightarrow> real" where
  "Math_atan2 y x =
     (if 0 < x then arctan (y / x)
      else if x < 0 then (if 0 \<le> y then arctan (y / x) + pi else arctan (y / x) - pi)
      else if 0 < y then pi / 2
      else if y < 0 then - (pi / 2)
      else 0)"

text \<open>
  \<open>calculateDistance\<close>, the haversine formula with an Earth radius of 3959 miles. A NaN or
  infinite argument reaches \<open>Math.sin\<close> or a difference of infinities and makes the
  result NaN; \<open>Math.sqrt\<close> of a negative number is NaN as well. Over the reals the
  quantity \<open>a\<close> stays between 0 and 1; the rounding of doubles, which can push it past 1
  for nearly antipodal points, is not modelled.
\<close>

definition calculateDistance :: "number \<Rightarrow> number \<Rightarrow> number \<Rightarrow> number \<Rightarrow> number" where
  "calculateDistance lat1 lng1 lat2 lng2 =
     (case (lat1, lng1, lat2, lng2) of
        (Fin la1, Fin lo1, Fin la2, Fin lo2) \<Rightarrow>
          (let R = 3959;
               dLat = toRadians (la2 - la1);
               dLng = toRadians (lo2 - lo1);
               a = sin (dLat / 2) * sin (dLat / 2) +
                   cos (toRadians la1) * cos (toRadians la2) *
                   sin (dLng / 2) * sin (dLng / 2)
           in if a < 0 \<or> 1 - a < 0 then NaN
              else Fin (R * (2 * Math_atan2 (sqrt a) (sqrt (1 - a)))))
      | _ \<Rightarrow> NaN)"

section \<open>Rows of the provider store\<close>

text \<open>
  One element of an \<open>additionalLocations\<close> array, in the shape the admin form declares
  (\<open>city\<close>, \<open>address?\<close>, \<open>lat?\<close>, \<open>lng?\<close> with numeric coordinates). An absent or null field
  is \<open>None\<close>. A \<open>null\<close> element is kept apart: reading a property of it throws.
\<close>

datatype location_entry =
    NullEntry
  | Entry (loc_city: "string option") (loc_address: "string option")
          (loc_lat: "real option") (loc_lng: "real option")

text \<open>
  The \<open>additionalLocations\<close> column as the matchers observe it: a falsy value (null, the
  empty string), a string that \<open>JSON.parse\<close> rejects, a value that is not an array, or an
  array of entries (stored as JSON or as a string that parses to it).
\<close>

datatype additional_locations =
    Absent
  | BadJson
  | NotArray
  | Locations "location_entry list"

text \<open>The rows carry the columns that the search reads.\<close>

record company =
  company_id :: int
  company_name :: string
  company_tier :: string
  company_lat :: "string option"
  company_lng :: "string option"
  company_additionalLocations :: additional_locations

record disposal_site =
  site_id :: int
  site_name :: string
  site_lat :: "string option"
  site_lng :: "string option"
  site_additionalLocations :: additional_locations

text \<open>The exception that reading a property of \<open>null\<close> throws.\<close>

datatype js_error = TypeError

text \<open>
  \<open>Array.prototype.some\<close> with a callback that may throw: the scan stops at the first
  element whose callback returns a truthy value or throws.
\<close>

fun array_some :: "('a \<Rightarrow> js_error + bool) \<Rightarrow> 'a list \<Rightarrow> js_error + bool" where
  "array_some f [] = Inr False"
| "array_some f (x # xs) =
     (case f x of
        Inl e \<Rightarrow> Inl e
      | Inr b \<Rightarrow> if b then Inr True else array_some f xs)"

section \<open>server/storage.ts: the radius matchers\<close>

text \<open>The test on the main location, shared by both matchers.\<close>

definition main_in_radius ::
  "number \<Rightarrow> number \<Rightarrow> number \<Rightarrow> string option \<Rightarrow> string option \<Rightarrow> bool" where
  "main_in_radius lat lng radiusMiles rowLat rowLng =
     (case (rowLat, rowLng) of
        (Some la, Some lo) \<Rightarrow>
          la \<noteq> [] \<and> lo \<noteq> [] \<and>
          num_le (calculateDistance lat lng (parseFloat la) (parseFloat lo)) radiusMiles
      | _ \<Rightarrow> False)"

text \<open>The callback of \<open>locations.some\<close> in \<open>getCompaniesByRadius\<close>.\<close>

fun company_loc_in_radius ::
  "number \<Rightarrow> number \<Rightarrow> number \<Rightarrow> location_entry \<Rightarrow> js_error + bool" where
  "company_loc_in_radius lat lng radiusMiles NullEntry = Inl TypeError"
| "company_loc_in_radius lat lng radiusMiles (Entry city address la lo) =
     (case (la, lo) of
        (Some x, Some y) \<Rightarrow>
          Inr (x \<noteq> 0 \<and> y \<noteq> 0 \<and>
               num_le (calculateDistance lat lng (Fin x) (Fin y)) radiusMiles)
      | _ \<Rightarrow> Inr False)"

text \<open>
  The filter callback of \<open>getCompaniesByRadius\<close>. The \<open>try\<close> block around the additional
  locations turns every exception into "no additional location matched".
\<close>

definition company_in_radius :: "number \<Rightarrow> number \<Rightarrow> number \<Rightarrow> company \<Rightarrow> bool" where
  "company_in_radius lat lng radiusMiles c =
     (if main_in_radius lat lng radiusMiles (company_lat c) (company_lng c) then True
      else
        (case company_additionalLocations c of
           Absent \<Rightarrow> False
         | BadJson \<Rightarrow> False
         | NotArray \<Rightarrow> False
         | Locations locations \<Rightarrow>
             if locations \<noteq> [] then
               (case array_some (company_loc_in_radius lat lng radiusMiles) locations of
                  Inl e \<Rightarrow> False
                | Inr matchesAdditionalLocation \<Rightarrow> matchesAdditionalLocation)
             else False))"

definition getCompaniesByRadius ::
  "company list \<Rightarrow> number \<Rightarrow> number \<Rightarrow> number \<Rightarrow> string option \<Rightarrow> company list" where
  "getCompaniesByRadius allCompanies lat lng radiusMiles searchAddress =
     filter (company_in_radius lat lng radiusMiles) allCompanies"

text \<open>The callback of \<open>locations.some\<close> in \<open>getDisposalSitesByRadius\<close>.\<close>

fun site_loc_matches :: "string \<Rightarrow> location_entry \<Rightarrow> js_error + bool" where
  "site_loc_matches searchLower NullEntry = Inl TypeError"
| "site_loc_matches searchLower (Entry city address la lo) =
     (let cityMatch = (case city of None \<Rightarrow> False
                       | Some s \<Rightarrow> s \<noteq> [] \<and> str_includes searchLower (toLowerCase s));
          addressMatch = (case address of None \<Rightarrow> False
                          | Some s \<Rightarrow> s \<noteq> [] \<and> str_includes searchLower (toLowerCase s))
      in Inr (cityMatch \<or> addressMatch))"

definition site_in_radius ::
  "number \<Rightarrow> number \<Rightarrow> number \<Rightarrow> string option \<Rightarrow> disposal_site \<Rightarrow> bool" where
  "site_in_radius lat lng radiusMiles searchAddress s =
     (if main_in_radius lat lng radiusMiles (site_lat s) (site_lng s) then True
      else
        (case searchAddress of
           None \<Rightarrow> False
         | Some address \<Rightarrow>
             if address = [] then False
             else
               (case site_additionalLocations s of
                  Absent \<Rightarrow> False
                | BadJson \<Rightarrow> False
                | NotArray \<Rightarrow> False
                | Locations locations \<Rightarrow>
                    (case array_some (site_loc_matches (toLowerCase address)) locations of
                       Inl e \<Rightarrow> False
                     | Inr matchesAdditionalLocation \<Rightarrow> matchesAdditionalLocation))))"

definition getDisposalSitesByRadius ::
  "disposal_site list \<Rightarrow> number \<Rightarrow> number \<Rightarrow> number \<Rightarrow> string option \<Rightarrow> disposal_site list" where
  "getDisposalSitesByRadius allSites lat lng radiusMiles searchAddress =
     filter (site_in_radius lat lng radiusMiles searchAddress) allSites"

section \<open>server/storage.ts: lookups by key\<close>

record state_landing_page =
  slp_id :: int
  slp_stateCode :: string
  slp_active :: string
  slp_companyId :: "int option"

record disposal_site_landing_page =
  dlp_id :: int
  dlp_stateCode :: string
  dlp_active :: string
  dlp_disposalSiteId :: "int option"

text \<open>The tables a search reads, as one snapshot. Rows are in the order a select returns.\<close>

record store =
  db_companies :: "company list"
  db_disposalSites :: "disposal_site list"
  db_stateLandingPages :: "state_landing_page list"
  db_disposalSiteLandingPages :: "disposal_site_landing_page list"

definition getCompany :: "store \<Rightarrow> int \<Rightarrow> company option" where
  "getCompany db i = find (\<lambda>c. company_id c = i) (db_companies db)"

definition getDisposalSite :: "store \<Rightarrow> int \<Rightarrow> disposal_site option" where
  "getDisposalSite db i = find (\<lambda>s. site_id s = i) (db_disposalSites db)"

definition getStateLandingPageByStateCode :: "store \<Rightarrow> string \<Rightarrow> state_landing_page option" where
  "getStateLandingPageByStateCode db stateCode =
     find (\<lambda>p. slp_stateCode p = toUpperCase stateCode) (db_stateLandingPages db)"

definition getDisposalSiteLandingPageByStateCode ::
  "store \<Rightarrow> string \<Rightarrow> disposal_site_landing_page option" where
  "getDisposalSiteLandingPageByStateCode db stateCode =
     find (\<lambda>p. dlp_stateCode p = toUpperCase stateCode) (db_disposalSiteLandingPages db)"

section \<open>server/routes.ts: the search endpoint\<close>

text \<open>The first candidate of the geocoding service's answer, at its documented shape.\<close>

record address_component =
  ac_types :: "string list"
  ac_short_name :: string
  ac_long_name :: string

record geocode_result =
  gr_lat :: real
  gr_lng :: real
  gr_formatted_address :: string
  gr_types :: "string list"
  gr_address_components :: "address_component list"

text \<open>
  What \<open>fetch\<close> and \<open>response.json()\<close> give for an address: an exception, or the
  service's status with its candidates (a missing \<open>results\<close> field is the empty list).
\<close>

datatype fetch_outcome = FetchFailed | GeocodeData string "geocode_result list"

text \<open>The request body; \<open>None\<close> is a field the body does not have.\<close>

record search_body =
  body_address :: "string option"
  body_radiusMiles :: "number option"

record search_result =
  res_location :: "real \<times> real \<times> string"
  res_state :: "(string \<times> string) option"
  res_searchType :: string
  res_hasRadiusResults :: bool
  res_premiumLandingPage :: "(state_landing_page \<times> company option) option"
  res_disposalSiteLandingPage :: "(disposal_site_landing_page \<times> disposal_site option) option"
  res_companies :: "company list"
  res_disposalSites :: "disposal_site list"
  res_radius :: number

datatype http_response = Failure nat string | Success search_result

text \<open>
  The table \<open>tierOrder\<close> of the comparator, read as \<open>tierOrder[tier]\<close>. The table is an
  object literal with the four keys premium, featured, verified and basic. A tier that is
  none of them reads \<open>undefined\<close>, unless it is the name of a member that every object
  inherits from \<open>Object.prototype\<close>: then the read finds that member, a function or an
  object.
\<close>

datatype table_entry = NoEntry | Rank int | InheritedMember

definition objectPrototypeMembers :: "string list" where
  "objectPrototypeMembers =
     [''constructor'', ''__defineGetter__'', ''__defineSetter__'', ''hasOwnProperty'',
      ''__lookupGetter__'', ''__lookupSetter__'', ''isPrototypeOf'', ''propertyIsEnumerable'',
      ''toString'', ''valueOf'', ''__proto__'', ''toLocaleString'']"

definition tierOrder :: "string \<Rightarrow> table_entry" where
  "tierOrder t =
     (if t = ''premium'' then Rank 3
      else if t = ''featured'' then Rank 2
      else if t = ''verified'' then Rank 1
      else if t = ''basic'' then Rank 0
      else if t \<in> set objectPrototypeMembers then InheritedMember
      else NoEntry)"

text \<open>
  The operand \<open>(tierOrder[tier] || 0)\<close> as the subtraction of the comparator reads it. A
  falsy entry, \<open>undefined\<close> or the rank 0, gives 0. An inherited member is truthy and
  converts to NaN, written \<open>None\<close>.
\<close>

definition tierRank :: "string \<Rightarrow> int option" where
  "tierRank t =
     (case tierOrder t of
        NoEntry \<Rightarrow> Some 0
      | Rank n \<Rightarrow> Some n
      | InheritedMember \<Rightarrow> None)"

text \<open>
  The comparator handed to \<open>otherCompanies.sort\<close> in step 6a. Its result is an integer, or
  NaN (\<open>None\<close>) when one of the two operands of the subtraction is NaN.
\<close>

definition compareCompanies :: "int \<Rightarrow> company \<Rightarrow> company \<Rightarrow> int option" where
  "compareCompanies landingCompanyId a b =
     (if company_id a = landingCompanyId then Some (- 1)
      else if company_id b = landingCompanyId then Some 1
      else
        (case (tierRank (company_tier b), tierRank (company_tier a)) of
           (Some rb, Some ra) \<Rightarrow> Some (rb - ra)
         | _ \<Rightarrow> None))"

text \<open>
  \<open>Array.prototype.sort\<close> with a comparator. A comparator result of NaN counts as 0. The
  language requires the sort to be stable, and for a consistent comparator that fixes the
  result; it is computed here by stable insertion. The comparator above is consistent as
  long as at most one row carries the landing page's company id, which the primary key of
  the table ensures, and no tier of the rows is the name of an inherited member.
\<close>

definition nanAsZero :: "int option \<Rightarrow> int" where
  "nanAsZero v = (case v of None \<Rightarrow> 0 | Some n \<Rightarrow> n)"

fun insert_by :: "('a \<Rightarrow> 'a \<Rightarrow> int option) \<Rightarrow> 'a \<Rightarrow> 'a list \<Rightarrow> 'a list" where
  "insert_by cmp x [] = [x]"
| "insert_by cmp x (y # ys) =
     (if nanAsZero (cmp x y) \<le> 0 then x # y # ys else y # insert_by cmp x ys)"

definition array_sort :: "('a \<Rightarrow> 'a \<Rightarrow> int option) \<Rightarrow> 'a list \<Rightarrow> 'a list" where
  "array_sort cmp xs = foldr (insert_by cmp) xs []"

text \<open>Step 2: the state of the first candidate and the kind of search.\<close>

definition extractState :: "geocode_result \<Rightarrow> (string \<times> string) option" where
  "extractState result =
     (case find (\<lambda>component. ''administrative_area_level_1'' \<in> set (ac_types component))
             (gr_address_components result) of
        None \<Rightarrow> None
      | Some component \<Rightarrow> Some (ac_short_name component, ac_long_name component))"

definition searchTypeOf :: "geocode_result \<Rightarrow> string" where
  "searchTypeOf result =
     (if ''administrative_area_level_1'' \<in> set (gr_types result) then ''state'' else ''local'')"

text \<open>Step 3: the landing pages of the state and the providers bound to them.\<close>

definition truthyCode :: "(string \<times> string) option \<Rightarrow> string option" where
  "truthyCode st = (case st of None \<Rightarrow> None | Some (code, name) \<Rightarrow> if code = [] then None else Some code)"

definition lookupLandingPage :: "store \<Rightarrow> string option \<Rightarrow> state_landing_page option" where
  "lookupLandingPage db stateCode =
     (case stateCode of None \<Rightarrow> None | Some code \<Rightarrow> getStateLandingPageByStateCode db code)"

definition resolvePremiumCompany :: "store \<Rightarrow> state_landing_page option \<Rightarrow> company option" where
  "resolvePremiumCompany db premiumLandingPage =
     (case premiumLandingPage of
        None \<Rightarrow> None
      | Some page \<Rightarrow>
          (case slp_companyId page of
             None \<Rightarrow> None
           | Some cid \<Rightarrow>
               if slp_active page = ''yes'' \<and> cid \<noteq> 0 then getCompany db cid else None))"

definition lookupDisposalLandingPage ::
  "store \<Rightarrow> string option \<Rightarrow> disposal_site_landing_page option" where
  "lookupDisposalLandingPage db stateCode =
     (case stateCode of None \<Rightarrow> None | Some code \<Rightarrow> getDisposalSiteLandingPageByStateCode db code)"

definition resolvePremiumDisposalSite ::
  "store \<Rightarrow> disposal_site_landing_page option \<Rightarrow> disposal_site option" where
  "resolvePremiumDisposalSite db disposalSiteLandingPage =
     (case disposalSiteLandingPage of
        None \<Rightarrow> None
      | Some page \<Rightarrow>
          (case dlp_disposalSiteId page of
             None \<Rightarrow> None
           | Some sid \<Rightarrow>
               if dlp_active page = ''yes'' \<and> sid \<noteq> 0 then getDisposalSite db sid else None))"

text \<open>Step 6: the premium company is taken out of the companies in the radius.\<close>

definition separatePremium :: "company option \<Rightarrow> company list \<Rightarrow> company list" where
  "separatePremium premiumCompany companiesInRadius =
     (case premiumCompany of
        None \<Rightarrow> companiesInRadius
      | Some pc \<Rightarrow> filter (\<lambda>c. company_id c \<noteq> company_id pc) companiesInRadius)"

text \<open>Step 6a: the sort runs only when the state has a landing page with a company id.\<close>

definition sortCompanies :: "state_landing_page option \<Rightarrow> company list \<Rightarrow> company list" where
  "sortCompanies premiumLandingPage otherCompanies =
     (case premiumLandingPage of
        None \<Rightarrow> otherCompanies
      | Some page \<Rightarrow>
          (case slp_companyId page of
             None \<Rightarrow> otherCompanies
           | Some cid \<Rightarrow>
               if cid \<noteq> 0 then array_sort (compareCompanies cid) otherCompanies
               else otherCompanies))"

text \<open>Steps 2 to 6a and the response, once the address is geocoded.\<close>

definition assembleSearch :: "store \<Rightarrow> string \<Rightarrow> number \<Rightarrow> geocode_result \<Rightarrow> search_result" where
  "assembleSearch db address radiusMiles result =
     (let st = extractState result;
          stateCode = truthyCode st;
          searchType = searchTypeOf result;
          premiumLandingPage = lookupLandingPage db stateCode;
          premiumCompany = resolvePremiumCompany db premiumLandingPage;
          disposalSiteLandingPage = lookupDisposalLandingPage db stateCode;
          premiumDisposalSite = resolvePremiumDisposalSite db disposalSiteLandingPage;
          companiesInRadius =
            getCompaniesByRadius (db_companies db) (Fin (gr_lat result)) (Fin (gr_lng result))
              radiusMiles (Some address);
          disposalSitesInRadius =
            getDisposalSitesByRadius (db_disposalSites db) (Fin (gr_lat result))
              (Fin (gr_lng result)) radiusMiles (Some address);
          otherCompanies = sortCompanies premiumLandingPage
                             (separatePremium premiumCompany companiesInRadius);
          hasRadiusResults = (length otherCompanies > 0 \<or> length disposalSitesInRadius > 0)
      in \<lparr> res_location = (gr_lat result, gr_lng result, gr_formatted_address result),
           res_state = (case stateCode of None \<Rightarrow> None | Some code \<Rightarrow> st),
           res_searchType = searchType,
           res_hasRadiusResults = hasRadiusResults,
           res_premiumLandingPage =
             (case premiumLandingPage of None \<Rightarrow> None | Some page \<Rightarrow> Some (page, premiumCompany)),
           res_disposalSiteLandingPage =
             (case disposalSiteLandingPage of None \<Rightarrow> None
              | Some page \<Rightarrow> Some (page, premiumDisposalSite)),
           res_companies = otherCompanies,
           res_disposalSites = disposalSitesInRadius,
           res_radius = radiusMiles \<rparr>)"

text \<open>
  The handler of \<open>POST /api/search\<close>. Its arguments are the \<open>GOOGLE_API_KEY\<close> of the
  environment, the geocoding service as a function of the address sent to it, the store
  and the request body. It returns the addresses it sent to the geocoding service, in
  order, and the response.
\<close>

definition search_handler ::
  "string option \<Rightarrow> (string \<Rightarrow> fetch_outcome) \<Rightarrow> store \<Rightarrow> search_body
     \<Rightarrow> string list \<times> http_response" where
  "search_handler apiKey geocode db body =
     (let radiusMiles = (case body_radiusMiles body of None \<Rightarrow> Fin 50 | Some r \<Rightarrow> r) in
      case body_address body of
        None \<Rightarrow> ([], Failure 400 ''Address is required'')
      | Some address \<Rightarrow>
          if address = [] then ([], Failure 400 ''Address is required'')
          else
            (case apiKey of
               None \<Rightarrow> ([], Failure 503 ''Google API key not configured'')
             | Some k \<Rightarrow>
                 if k = [] then ([], Failure 503 ''Google API key not configured'')
                 else
                   (case geocode address of
                      FetchFailed \<Rightarrow> ([address], Failure 500 ''Failed to perform search'')
                    | GeocodeData status results \<Rightarrow>
                        if status \<noteq> ''OK'' then
                          ([address], Failure 400 ''Unable to geocode address'')
                        else
                          (case results of
                             [] \<Rightarrow> ([address], Failure 400 ''Unable to geocode address'')
                           | result # rest \<Rightarrow>
                               ([address],
                                Success (assembleSearch db address radiusMiles result))))))"

text \<open>The provider a response carries inside its landing page, if any.\<close>

definition premiumCompanyOf :: "search_result \<Rightarrow> company option" where
  "premiumCompanyOf r =
     (case res_premiumLandingPage r of None \<Rightarrow> None | Some (page, c) \<Rightarrow> c)"

definition premiumDisposalSiteOf :: "search_result \<Rightarrow> disposal_site option" where
  "premiumDisposalSiteOf r =
     (case res_disposalSiteLandingPage r of None \<Rightarrow> None | Some (page, s) \<Rightarrow> s)"

section \<open>The matching rule in the words of the specification\<close>

text \<open>The entries of an \<open>additionalLocations\<close> column; a column that is no array has none.\<close>

definition entriesOf :: "additional_locations \<Rightarrow> location_entry list" where
  "entriesOf extra = (case extra of Locations locations \<Rightarrow> locations | _ \<Rightarrow> [])"

text \<open>
  The specification's rule for both kinds of provider: the resolvable locations are the
  primary location and every additional location that carries coordinates, and a provider
  matches when one of them lies within the radius of the center.
\<close>

definition spec_primary_location :: "string option \<Rightarrow> string option \<Rightarrow> (number \<times> number) list" where
  "spec_primary_location rowLat rowLng =
     (case (rowLat, rowLng) of
        (Some la, Some lo) \<Rightarrow> if la \<noteq> [] \<and> lo \<noteq> [] then [(parseFloat la, parseFloat lo)] else []
      | _ \<Rightarrow> [])"

fun spec_entry_location :: "location_entry \<Rightarrow> (number \<times> number) list" where
  "spec_entry_location NullEntry = []"
| "spec_entry_location (Entry city address la lo) =
     (case (la, lo) of (Some x, Some y) \<Rightarrow> [(Fin x, Fin y)] | _ \<Rightarrow> [])"

definition spec_resolvable_locations ::
  "string option \<Rightarrow> string option \<Rightarrow> additional_locations \<Rightarrow> (number \<times> number) list" where
  "spec_resolvable_locations rowLat rowLng extra =
     spec_primary_location rowLat rowLng @ concat (map spec_entry_location (entriesOf extra))"

definition spec_matches :: "number \<Rightarrow> number \<Rightarrow> number \<Rightarrow> (number \<times> number) list \<Rightarrow> bool" where
  "spec_matches lat lng radiusMiles locs =
     list_ex (\<lambda>(la, lo). num_le (calculateDistance lat lng la lo) radiusMiles) locs"

text \<open>
  An entry the company matcher reads as the form writes it: an object, not \<open>null\<close>, whose
  coordinates, when present, are not the number 0.
\<close>

fun plain_entry :: "location_entry \<Rightarrow> bool" where
  "plain_entry NullEntry = False"
| "plain_entry (Entry city address la lo) = (la \<noteq> Some 0 \<and> lo \<noteq> Some 0)"

text \<open>The text test of one additional location of a disposal site against a search address.\<close>

fun entry_text_matches :: "string \<Rightarrow> location_entry \<Rightarrow> bool" where
  "entry_text_matches address NullEntry = False"
| "entry_text_matches address (Entry city addr la lo) =
     ((case city of None \<Rightarrow> False
       | Some s \<Rightarrow> s \<noteq> [] \<and> str_includes (toLowerCase address) (toLowerCase s)) \<or>
      (case addr of None \<Rightarrow> False
       | Some s \<Rightarrow> s \<noteq> [] \<and> str_includes (toLowerCase address) (toLowerCase s)))"

text \<open>
  Malformed locations in the words of the specification: coordinates that are missing or
  that do not parse. For the primary location these are the two coordinate texts of the
  row; an additional location is malformed when it is \<open>null\<close> or lacks a coordinate.
\<close>

definition malformed_main :: "string option \<Rightarrow> string option \<Rightarrow> bool" where
  "malformed_main rowLat rowLng =
     (case (rowLat, rowLng) of
        (Some la, Some lo) \<Rightarrow> la = [] \<or> lo = [] \<or> parseFloat la = NaN \<or> parseFloat lo = NaN
      | _ \<Rightarrow> True)"

fun malformed_entry :: "location_entry \<Rightarrow> bool" where
  "malformed_entry NullEntry = True"
| "malformed_entry (Entry city address la lo) = (la = None \<or> lo = None)"

text \<open>An entry with its coordinates replaced; \<open>null\<close> stays \<open>null\<close>.\<close>

fun set_coordinates :: "real option \<Rightarrow> real option \<Rightarrow> location_entry \<Rightarrow> location_entry" where
  "set_coordinates la lo NullEntry = NullEntry"
| "set_coordinates la lo (Entry city address la0 lo0) = Entry city address la lo"

section \<open>Example rows and requests\<close>

text \<open>
  A geocoding answer for Indianapolis, placed at latitude 45 and longitude 90 so that the
  distances of the examples are exact: a point at the same coordinates is 0 miles away and
  the point at latitude -45 on the same meridian is a quarter of a great circle away.
\<close>

definition indiana :: address_component where
  "indiana = \<lparr> ac_types = [''administrative_area_level_1'', ''political''],
               ac_short_name = ''IN'', ac_long_name = ''Indiana'' \<rparr>"

definition indianapolis :: geocode_result where
  "indianapolis = \<lparr> gr_lat = 45, gr_lng = 90, gr_formatted_address = ''Indianapolis, IN, USA'',
                    gr_types = [''locality'', ''political''],
                    gr_address_components = [indiana] \<rparr>"

definition geocoder :: "string \<Rightarrow> fetch_outcome" where
  "geocoder address = GeocodeData ''OK'' [indianapolis]"

definition mkCompany :: "int \<Rightarrow> string \<Rightarrow> string option \<Rightarrow> string option
    \<Rightarrow> additional_locations \<Rightarrow> company" where
  "mkCompany i t la lo extra =
     \<lparr> company_id = i, company_name = ''company'', company_tier = t, company_lat = la,
       company_lng = lo, company_additionalLocations = extra \<rparr>"

definition mkSite :: "int \<Rightarrow> string option \<Rightarrow> string option \<Rightarrow> additional_locations
    \<Rightarrow> disposal_site" where
  "mkSite i la lo extra =
     \<lparr> site_id = i, site_name = ''site'', site_lat = la, site_lng = lo,
       site_additionalLocations = extra \<rparr>"

definition emptyStore :: store where
  "emptyStore = \<lparr> db_companies = [], db_disposalSites = [], db_stateLandingPages = [],
                   db_disposalSiteLandingPages = [] \<rparr>"

text \<open>
  Companies at the geocoded point, one per tier, and the company and disposal site that the
  landing pages of Indiana are bound to.
\<close>

definition basicCo :: company where
  "basicCo = mkCompany 1 ''basic'' (Some ''45'') (Some ''90'') Absent"

definition premiumCo :: company where
  "premiumCo = mkCompany 2 ''premium'' (Some ''45'') (Some ''90'') Absent"

definition verifiedCo :: company where
  "verifiedCo = mkCompany 3 ''verified'' (Some ''45'') (Some ''90'') Absent"

definition inserv :: company where
  "inserv = mkCompany 42 ''featured'' (Some ''45'') (Some ''90'') Absent"

definition indianaPage :: state_landing_page where
  "indianaPage = \<lparr> slp_id = 1, slp_stateCode = ''IN'', slp_active = ''yes'',
                   slp_companyId = Some 42 \<rparr>"

definition indianaSitePage :: disposal_site_landing_page where
  "indianaSitePage = \<lparr> dlp_id = 1, dlp_stateCode = ''IN'', dlp_active = ''yes'',
                       dlp_disposalSiteId = Some 9 \<rparr>"

text \<open>A store with the three tiers in the order basic, premium, verified and no page.\<close>

definition tierStore :: store where
  "tierStore = \<lparr> db_companies = [basicCo, premiumCo, verifiedCo], db_disposalSites = [],
                  db_stateLandingPages = [], db_disposalSiteLandingPages = [] \<rparr>"

text \<open>The same companies, the bound company and its active landing page.\<close>

definition premiumStore :: store where
  "premiumStore = \<lparr> db_companies = [basicCo, premiumCo, inserv, verifiedCo],
                     db_disposalSites = [], db_stateLandingPages = [indianaPage],
                     db_disposalSiteLandingPages = [] \<rparr>"

text \<open>A store where the bound company is the only company.\<close>

definition onlyPremiumStore :: store where
  "onlyPremiumStore = \<lparr> db_companies = [inserv], db_disposalSites = [],
                         db_stateLandingPages = [indianaPage],
                         db_disposalSiteLandingPages = [] \<rparr>"

text \<open>A store whose landing pages are bound to rows that do not exist.\<close>

definition danglingStore :: store where
  "danglingStore = \<lparr> db_companies = [basicCo], db_disposalSites = [],
                      db_stateLandingPages = [indianaPage],
                      db_disposalSiteLandingPages = [indianaSitePage] \<rparr>"

text \<open>A store whose landing pages exist and are bound to existing rows, but are not active.\<close>

definition indianaSite :: disposal_site where
  "indianaSite = mkSite 9 (Some ''45'') (Some ''90'') Absent"

definition inactiveStore :: store where
  "inactiveStore = \<lparr> db_companies = [basicCo, inserv], db_disposalSites = [indianaSite],
                      db_stateLandingPages = [indianaPage \<lparr> slp_active := ''no'' \<rparr>],
                      db_disposalSiteLandingPages = [indianaSitePage \<lparr> dlp_active := ''no'' \<rparr>] \<rparr>"

text \<open>A geocoding answer that names no state.\<close>

definition midOcean :: geocode_result where
  "midOcean = \<lparr> gr_lat = 45, gr_lng = 90, gr_formatted_address = ''North Atlantic Ocean'',
                gr_types = [''natural_feature''], gr_address_components = [] \<rparr>"

text \<open>
  Providers whose primary location is a quarter of a great circle from the geocoded point
  and whose one additional location is exactly at it.
\<close>

definition satelliteCo :: company where
  "satelliteCo = mkCompany 5 ''basic'' (Some ''-45'') (Some ''90'')
                   (Locations [Entry (Some ''Gary'') None (Some 45) (Some 90)])"

definition satelliteSite :: disposal_site where
  "satelliteSite = mkSite 6 (Some ''-45'') (Some ''90'')
                     (Locations [Entry (Some ''Gary'') None (Some 45) (Some 90)])"

text \<open>A disposal site without any coordinates, with one additional location named by city.\<close>

definition cityOnlySite :: disposal_site where
  "cityOnlySite = mkSite 8 None None (Locations [Entry (Some ''Indianapolis'') None None None])"

text \<open>
  A company all of whose locations are malformed, and companies whose first additional
  location is malformed and whose second one is exactly at the geocoded point.
\<close>

definition malformedCo :: company where
  "malformedCo = mkCompany 13 ''premium'' (Some ''n/a'') (Some ''90'')
                   (Locations [Entry (Some ''Gary'') None None (Some 90), NullEntry])"

definition gapCo :: company where
  "gapCo = mkCompany 14 ''basic'' None None
             (Locations [Entry (Some ''Gary'') None None None,
                         Entry (Some ''Indianapolis'') None (Some 45) (Some 90)])"

definition nullFirstCo :: company where
  "nullFirstCo = mkCompany 15 ''basic'' None None
                   (Locations [NullEntry, Entry (Some ''Indianapolis'') None (Some 45) (Some 90)])"

text \<open>
  A disposal site without coordinates whose array of additional locations starts with a
  \<open>null\<close> element.
\<close>

definition nullFirstSite :: disposal_site where
  "nullFirstSite = mkSite 17 None None
                     (Locations [NullEntry, Entry (Some ''Gary'') None None None])"

definition indianapolisRequest :: search_body where
  "indianapolisRequest = \<lparr> body_address = Some ''Indianapolis, IN'', body_radiusMiles = None \<rparr>"

section \<open>Facts about the distance function\<close>

lemma calculateDistance_same: "calculateDistance (Fin x) (Fin y) (Fin x) (Fin y) = Fin 0"
  by (simp add: calculateDistance_def toRadians_def Math_atan2_def)

lemma Math_atan2_diag: "0 < s \<Longrightarrow> Math_atan2 s s = pi / 4"
  by (simp add: Math_atan2_def arctan_one)

lemma calculateDistance_quarter:
  "calculateDistance (Fin 45) (Fin 90) (Fin (- 45)) (Fin 90) = Fin (3959 * pi / 2)"
proof -
  have "toRadians (- 90) / 2 = - (pi / 4)"
    by (simp add: toRadians_def)
  then have s1: "sin (toRadians (- 90) / 2) * sin (toRadians (- 90) / 2) = 1 / 2"
    by (simp add: sin_45)
  have s2: "sin (toRadians 0 / 2) = 0"
    by (simp add: toRadians_def)
  show ?thesis
    by (simp add: calculateDistance_def Let_def s1 s2 Math_atan2_diag)
qed

lemma quarter_circle_far:
  assumes "r < 3959"
  shows "\<not> 3959 * pi / 2 \<le> (r::real)"
proof -
  have "3959 * 2 \<le> 3959 * pi"
    using pi_ge_two by simp
  with assms show ?thesis by simp
qed

lemmas parseFloat_eval =
  parseFloat_def splitSign_def isWhite_def isDigit_def digitsVal_def exponentPart_def
  scale10_def

lemmas example_rows =
  indianapolis_def indiana_def geocoder_def mkCompany_def mkSite_def emptyStore_def basicCo_def
  premiumCo_def verifiedCo_def inserv_def indianaPage_def indianaSitePage_def tierStore_def
  premiumStore_def onlyPremiumStore_def danglingStore_def indianapolisRequest_def
  indianaSite_def inactiveStore_def midOcean_def satelliteCo_def satelliteSite_def
  cityOnlySite_def malformedCo_def gapCo_def nullFirstCo_def nullFirstSite_def

lemmas search_eval =
  search_handler_def assembleSearch_def Let_def extractState_def truthyCode_def
  searchTypeOf_def lookupLandingPage_def getStateLandingPageByStateCode_def
  resolvePremiumCompany_def lookupDisposalLandingPage_def
  getDisposalSiteLandingPageByStateCode_def resolvePremiumDisposalSite_def getCompany_def
  getDisposalSite_def getCompaniesByRadius_def getDisposalSitesByRadius_def sortCompanies_def
  separatePremium_def company_in_radius_def site_in_radius_def main_in_radius_def
  toUpperCase_def upperChar_def toLowerCase_def lowerChar_def array_sort_def
  compareCompanies_def tierRank_def tierOrder_def objectPrototypeMembers_def nanAsZero_def
  premiumCompanyOf_def
  premiumDisposalSiteOf_def

lemmas spec_eval =
  spec_matches_def spec_resolvable_locations_def spec_primary_location_def entriesOf_def

section \<open>Facts about the radius matchers\<close>

lemma num_le_lt_trans: "num_le d r1 \<Longrightarrow> num_lt r1 r2 \<Longrightarrow> num_le d r2"
  by (cases d; cases r1; cases r2) auto

lemma main_in_radius_mono:
  "num_lt r1 r2 \<Longrightarrow> main_in_radius lat lng r1 a b \<Longrightarrow> main_in_radius lat lng r2 a b"
  by (auto simp: main_in_radius_def split: option.splits dest: num_le_lt_trans)

lemma array_some_mono:
  assumes "\<And>x. f x = Inr True \<Longrightarrow> g x = Inr True"
      and "\<And>x e. g x = Inl e \<Longrightarrow> f x = Inl e"
  shows "array_some f xs = Inr True \<Longrightarrow> array_some g xs = Inr True"
proof (induction xs)
  case Nil
  then show ?case by simp
next
  case (Cons x xs)
  show ?case
  proof (cases "f x")
    case (Inl e)
    with Cons.prems show ?thesis by simp
  next
    case (Inr b)
    show ?thesis
    proof (cases b)
      case True
      with Inr assms(1) have "g x = Inr True" by simp
      then show ?thesis by simp
    next
      case False
      with Inr Cons.prems have "array_some f xs = Inr True" by simp
      then have rest: "array_some g xs = Inr True" by (rule Cons.IH)
      show ?thesis
      proof (cases "g x")
        case (Inl e)
        then have "f x = Inl e" by (rule assms(2))
        with Inr show ?thesis by simp
      next
        case (Inr c)
        with rest show ?thesis by simp
      qed
    qed
  qed
qed

lemma company_loc_mono:
  "num_lt r1 r2 \<Longrightarrow> company_loc_in_radius lat lng r1 e = Inr True
     \<Longrightarrow> company_loc_in_radius lat lng r2 e = Inr True"
  by (cases e) (auto split: option.splits dest: num_le_lt_trans)

lemma company_loc_Inl:
  "company_loc_in_radius lat lng r2 e = Inl err \<Longrightarrow> company_loc_in_radius lat lng r1 e = Inl err"
  by (cases e) (auto split: option.splits)

lemma company_in_radius_mono:
  assumes "num_lt r1 r2" and "company_in_radius lat lng r1 c"
  shows "company_in_radius lat lng r2 c"
proof (cases "main_in_radius lat lng r1 (company_lat c) (company_lng c)")
  case True
  with assms(1) have "main_in_radius lat lng r2 (company_lat c) (company_lng c)"
    by (simp add: main_in_radius_mono)
  then show ?thesis by (simp add: company_in_radius_def)
next
  case False
  with assms(2) obtain ls where ls: "company_additionalLocations c = Locations ls"
    and some: "array_some (company_loc_in_radius lat lng r1) ls = Inr True"
    by (auto simp: company_in_radius_def split: additional_locations.splits if_splits sum.splits)
  have "array_some (company_loc_in_radius lat lng r2) ls = Inr True"
    using some
    by (rule array_some_mono[rotated 2]) (auto intro: company_loc_mono[OF assms(1)] company_loc_Inl)
  moreover from some have "ls \<noteq> []" by auto
  ultimately show ?thesis using ls by (simp add: company_in_radius_def)
qed

lemma site_in_radius_mono:
  assumes "num_lt r1 r2" and "site_in_radius lat lng r1 addr s"
  shows "site_in_radius lat lng r2 addr s"
proof (cases "main_in_radius lat lng r1 (site_lat s) (site_lng s)")
  case True
  with assms(1) have "main_in_radius lat lng r2 (site_lat s) (site_lng s)"
    by (simp add: main_in_radius_mono)
  then show ?thesis by (simp add: site_in_radius_def)
next
  case False
  with assms(2) show ?thesis
    by (auto simp: site_in_radius_def split: option.splits if_splits)
qed

text \<open>
  Claim C5. For a fixed center, provider collection and search address, and radii
  \<open>r1 < r2\<close>, every provider matched for \<open>r1\<close> is matched for \<open>r2\<close>, for the company
  matcher and for the disposal-site matcher.
\<close>

theorem radius_monotone:
  assumes "num_lt r1 r2"
  shows "set (getCompaniesByRadius cs lat lng r1 addr) \<subseteq> set (getCompaniesByRadius cs lat lng r2 addr)
       \<and> set (getDisposalSitesByRadius ss lat lng r1 addr) \<subseteq> set (getDisposalSitesByRadius ss lat lng r2 addr)"
  using assms
  by (auto simp: getCompaniesByRadius_def getDisposalSitesByRadius_def
           intro: company_in_radius_mono site_in_radius_mono)

theorem radius_monotone_witness:
  "num_lt (Fin 1) (Fin 50) \<and>
   set (getCompaniesByRadius
          [mkCompany 1 ''basic'' (Some ''-45'') (Some ''90'')
             (Locations [Entry (Some ''Indianapolis'') None (Some 45) (Some 90)])]
          (Fin 45) (Fin 90) (Fin 1) None)
   \<subseteq> set (getCompaniesByRadius
          [mkCompany 1 ''basic'' (Some ''-45'') (Some ''90'')
             (Locations [Entry (Some ''Indianapolis'') None (Some 45) (Some 90)])]
          (Fin 45) (Fin 90) (Fin 50) None) \<and>
   set (getDisposalSitesByRadius [mkSite 7 (Some ''45'') (Some ''90'') Absent]
          (Fin 45) (Fin 90) (Fin 1) None)
   \<subseteq> set (getDisposalSitesByRadius [mkSite 7 (Some ''45'') (Some ''90'') Absent]
          (Fin 45) (Fin 90) (Fin 50) None)"
  using radius_monotone [of "Fin 1" "Fin 50"
      "[mkCompany 1 ''basic'' (Some ''-45'') (Some ''90'')
             (Locations [Entry (Some ''Indianapolis'') None (Some 45) (Some 90)])]"
      "Fin 45" "Fin 90" None "[mkSite 7 (Some ''45'') (Some ''90'') Absent]"]
  by simp

section \<open>Facts about the search endpoint\<close>

lemma length_insert_by: "length (insert_by cmp x ys) = Suc (length ys)"
  by (induction ys) auto

lemma length_array_sort: "length (array_sort cmp xs) = length xs"
  by (induction xs) (auto simp: array_sort_def length_insert_by)

lemma length_sortCompanies: "length (sortCompanies p xs) = length xs"
  by (simp add: sortCompanies_def length_array_sort split: option.splits)

lemma sortCompanies_Nil_iff: "sortCompanies p xs = [] \<longleftrightarrow> xs = []"
  using length_sortCompanies[of p xs] by (metis length_0_conv)

lemma search_handler_Success:
  assumes "search_handler apiKey geocode db body = (calls, Success r)"
  obtains address result rest k where
    "body_address body = Some address" "address \<noteq> []" "apiKey = Some k" "k \<noteq> []"
    "geocode address = GeocodeData ''OK'' (result # rest)" "calls = [address]"
    "r = assembleSearch db address
           (case body_radiusMiles body of None \<Rightarrow> Fin 50 | Some x \<Rightarrow> x) result"
  using assms
  by (auto simp: search_handler_def Let_def
           split: option.splits if_splits fetch_outcome.splits list.splits)

text \<open>
  Claim C9. A search request whose body omits \<open>radiusMiles\<close> is performed with a radius of
  50 miles: it behaves as the same request with \<open>radiusMiles = 50\<close>, and the \<open>radius\<close> field
  of a successful response is 50.
\<close>

theorem omitted_radius_defaults_to_50:
  assumes "body_radiusMiles body = None"
  shows "search_handler apiKey geocode db body
           = search_handler apiKey geocode db (body\<lparr> body_radiusMiles := Some (Fin 50) \<rparr>)
       \<and> (\<forall>calls r. search_handler apiKey geocode db body = (calls, Success r)
             \<longrightarrow> res_radius r = Fin 50)"
proof
  show "search_handler apiKey geocode db body
           = search_handler apiKey geocode db (body\<lparr> body_radiusMiles := Some (Fin 50) \<rparr>)"
    using assms by (simp add: search_handler_def)
  show "\<forall>calls r. search_handler apiKey geocode db body = (calls, Success r)
             \<longrightarrow> res_radius r = Fin 50"
  proof (intro allI impI)
    fix calls r
    assume "search_handler apiKey geocode db body = (calls, Success r)"
    then show "res_radius r = Fin 50"
      using assms by (elim search_handler_Success) (simp add: assembleSearch_def Let_def)
  qed
qed

theorem omitted_radius_defaults_to_50_witness:
  "body_radiusMiles \<lparr> body_address = Some ''Indianapolis, IN'', body_radiusMiles = None \<rparr> = None
   \<and> search_handler (Some ''key'') geocoder emptyStore
        \<lparr> body_address = Some ''Indianapolis, IN'', body_radiusMiles = None \<rparr>
     = search_handler (Some ''key'') geocoder emptyStore
        \<lparr> body_address = Some ''Indianapolis, IN'', body_radiusMiles = Some (Fin 50) \<rparr>
   \<and> search_handler (Some ''key'') geocoder emptyStore
        \<lparr> body_address = Some ''Indianapolis, IN'', body_radiusMiles = None \<rparr>
     = ([''Indianapolis, IN''],
        Success (assembleSearch emptyStore ''Indianapolis, IN'' (Fin 50) indianapolis))
   \<and> res_radius (assembleSearch emptyStore ''Indianapolis, IN'' (Fin 50) indianapolis) = Fin 50"
proof -
  let ?b = "\<lparr> body_address = Some ''Indianapolis, IN'', body_radiusMiles = None \<rparr>"
  have h: "body_radiusMiles ?b = None" by simp
  have run: "search_handler (Some ''key'') geocoder emptyStore ?b
     = ([''Indianapolis, IN''],
        Success (assembleSearch emptyStore ''Indianapolis, IN'' (Fin 50) indianapolis))"
    by (simp add: search_handler_def geocoder_def)
  from omitted_radius_defaults_to_50 [OF h, of "Some ''key''" geocoder emptyStore] run
  show ?thesis by simp
qed

text \<open>
  Claim C3, as the code has it. A search whose address is missing or empty is answered
  with status 400 before the API key is read and before any geocoding request is sent.
  The radius is not validated: with an address, an API key and a geocoded candidate, the
  search runs to a successful response for every radius, and the response reports that
  radius.
\<close>

theorem empty_address_rejected_radius_unchecked:
  "((body_address body = None \<or> body_address body = Some [])
      \<longrightarrow> search_handler apiKey geocode db body = ([], Failure 400 ''Address is required''))
   \<and> (address \<noteq> [] \<and> k \<noteq> [] \<and> geocode address = GeocodeData ''OK'' (result # rest)
      \<longrightarrow> search_handler (Some k) geocode db
            \<lparr> body_address = Some address, body_radiusMiles = Some radius \<rparr>
          = ([address], Success (assembleSearch db address radius result))
        \<and> res_radius (assembleSearch db address radius result) = radius)"
  by (auto simp: search_handler_def assembleSearch_def Let_def)

theorem empty_address_rejected_radius_unchecked_witness:
  "search_handler None geocoder emptyStore
      \<lparr> body_address = Some [], body_radiusMiles = Some (Fin 10) \<rparr>
     = ([], Failure 400 ''Address is required'')
   \<and> search_handler (Some ''key'') geocoder emptyStore
        \<lparr> body_address = Some ''Indianapolis, IN'', body_radiusMiles = Some (Fin 10) \<rparr>
     = ([''Indianapolis, IN''],
        Success (assembleSearch emptyStore ''Indianapolis, IN'' (Fin 10) indianapolis))"
  using empty_address_rejected_radius_unchecked
          [where body = "\<lparr> body_address = Some [], body_radiusMiles = Some (Fin 10) \<rparr>"
             and apiKey = None and geocode = geocoder and db = emptyStore
             and address = "''Indianapolis, IN''" and k = "''key''"
             and result = indianapolis and rest = "[]" and radius = "Fin 10"]
  by (simp add: geocoder_def)

text \<open>
  Claim C3 as stated fails: a request with the radius \<open>-5\<close> is sent to the geocoding
  service and answered with an assembled result, not with an error.
\<close>

theorem nonpositive_radius_is_searched:
  "search_handler (Some ''key'') geocoder emptyStore
      \<lparr> body_address = Some ''Indianapolis, IN'', body_radiusMiles = Some (Fin (- 5)) \<rparr>
   = ([''Indianapolis, IN''],
      Success \<lparr> res_location = (45, 90, ''Indianapolis, IN, USA''),
                res_state = Some (''IN'', ''Indiana''),
                res_searchType = ''local'',
                res_hasRadiusResults = False,
                res_premiumLandingPage = None,
                res_disposalSiteLandingPage = None,
                res_companies = [],
                res_disposalSites = [],
                res_radius = Fin (- 5) \<rparr>)"
  by (simp add: search_handler_def geocoder_def assembleSearch_def Let_def indianapolis_def
        indiana_def emptyStore_def extractState_def truthyCode_def searchTypeOf_def
        lookupLandingPage_def getStateLandingPageByStateCode_def resolvePremiumCompany_def
        lookupDisposalLandingPage_def getDisposalSiteLandingPageByStateCode_def
        resolvePremiumDisposalSite_def getCompaniesByRadius_def getDisposalSitesByRadius_def
        sortCompanies_def separatePremium_def)

lemma res_companies_assemble:
  "res_companies (assembleSearch db address radiusMiles result) =
     sortCompanies (lookupLandingPage db (truthyCode (extractState result)))
       (separatePremium
          (resolvePremiumCompany db (lookupLandingPage db (truthyCode (extractState result))))
          (getCompaniesByRadius (db_companies db) (Fin (gr_lat result)) (Fin (gr_lng result))
             radiusMiles (Some address)))"
  by (simp add: assembleSearch_def Let_def)

lemma res_disposalSites_assemble:
  "res_disposalSites (assembleSearch db address radiusMiles result) =
     getDisposalSitesByRadius (db_disposalSites db) (Fin (gr_lat result)) (Fin (gr_lng result))
       radiusMiles (Some address)"
  by (simp add: assembleSearch_def Let_def)

lemma res_hasRadiusResults_assemble:
  "res_hasRadiusResults (assembleSearch db address radiusMiles result) =
     (res_companies (assembleSearch db address radiusMiles result) \<noteq> [] \<or>
      res_disposalSites (assembleSearch db address radiusMiles result) \<noteq> [])"
  by (simp add: assembleSearch_def Let_def)

text \<open>
  Claim C7. For every search that reaches result assembly, \<open>hasRadiusResults\<close> is true
  exactly when the companies left after the premium company is taken out are not empty or
  the matched disposal sites are not empty; in terms of the response, it is false exactly
  when its \<open>companies\<close> and its \<open>disposalSites\<close> are both empty.
\<close>

theorem hasRadiusResults_iff:
  "res_hasRadiusResults (assembleSearch db address radiusMiles result) =
     (separatePremium
        (resolvePremiumCompany db (lookupLandingPage db (truthyCode (extractState result))))
        (getCompaniesByRadius (db_companies db) (Fin (gr_lat result)) (Fin (gr_lng result))
           radiusMiles (Some address)) \<noteq> []
      \<or> getDisposalSitesByRadius (db_disposalSites db) (Fin (gr_lat result))
           (Fin (gr_lng result)) radiusMiles (Some address) \<noteq> [])
   \<and> (search_handler apiKey geocode db body = (calls, Success r)
        \<longrightarrow> res_hasRadiusResults r = (res_companies r \<noteq> [] \<or> res_disposalSites r \<noteq> [])
          \<and> (\<not> res_hasRadiusResults r) = (res_companies r = [] \<and> res_disposalSites r = []))"
proof (intro conjI impI)
  show "res_hasRadiusResults (assembleSearch db address radiusMiles result) =
     (separatePremium
        (resolvePremiumCompany db (lookupLandingPage db (truthyCode (extractState result))))
        (getCompaniesByRadius (db_companies db) (Fin (gr_lat result)) (Fin (gr_lng result))
           radiusMiles (Some address)) \<noteq> []
      \<or> getDisposalSitesByRadius (db_disposalSites db) (Fin (gr_lat result))
           (Fin (gr_lng result)) radiusMiles (Some address) \<noteq> [])"
    unfolding res_hasRadiusResults_assemble res_companies_assemble res_disposalSites_assemble
    by (simp add: sortCompanies_Nil_iff)
next
  assume ok: "search_handler apiKey geocode db body = (calls, Success r)"
  then show a: "res_hasRadiusResults r = (res_companies r \<noteq> [] \<or> res_disposalSites r \<noteq> [])"
    by (elim search_handler_Success) (simp only: res_hasRadiusResults_assemble)
  then show "(\<not> res_hasRadiusResults r) = (res_companies r = [] \<and> res_disposalSites r = [])"
    by simp
qed

theorem hasRadiusResults_iff_witness:
  "search_handler (Some ''key'') geocoder onlyPremiumStore indianapolisRequest
   = ([''Indianapolis, IN''],
      Success \<lparr> res_location = (45, 90, ''Indianapolis, IN, USA''),
                res_state = Some (''IN'', ''Indiana''),
                res_searchType = ''local'',
                res_hasRadiusResults = False,
                res_premiumLandingPage = Some (indianaPage, Some inserv),
                res_disposalSiteLandingPage = None,
                res_companies = [],
                res_disposalSites = [],
                res_radius = Fin 50 \<rparr>)
   \<and> getCompaniesByRadius (db_companies onlyPremiumStore) (Fin 45) (Fin 90) (Fin 50)
        (Some ''Indianapolis, IN'') = [inserv]"
proof -
  have run: "search_handler (Some ''key'') geocoder onlyPremiumStore indianapolisRequest
   = ([''Indianapolis, IN''],
      Success \<lparr> res_location = (45, 90, ''Indianapolis, IN, USA''),
                res_state = Some (''IN'', ''Indiana''),
                res_searchType = ''local'',
                res_hasRadiusResults = False,
                res_premiumLandingPage = Some (indianaPage, Some inserv),
                res_disposalSiteLandingPage = None,
                res_companies = [],
                res_disposalSites = [],
                res_radius = Fin 50 \<rparr>)"
    by (simp add: search_eval example_rows parseFloat_eval calculateDistance_same)
  have m: "getCompaniesByRadius (db_companies onlyPremiumStore) (Fin 45) (Fin 90) (Fin 50)
        (Some ''Indianapolis, IN'') = [inserv]"
    by (simp add: search_eval example_rows parseFloat_eval calculateDistance_same)
  from hasRadiusResults_iff [of onlyPremiumStore "''Indianapolis, IN''" "Fin 50" indianapolis
      "Some ''key''" geocoder indianapolisRequest] run m
  show ?thesis by simp
qed

lemma premiumCompanyOf_assemble:
  "premiumCompanyOf (assembleSearch db address radiusMiles result) =
     resolvePremiumCompany db (lookupLandingPage db (truthyCode (extractState result)))"
  by (simp add: premiumCompanyOf_def assembleSearch_def Let_def resolvePremiumCompany_def
           split: option.splits)

lemma premiumDisposalSiteOf_assemble:
  "premiumDisposalSiteOf (assembleSearch db address radiusMiles result) =
     resolvePremiumDisposalSite db
       (lookupDisposalLandingPage db (truthyCode (extractState result)))"
  by (simp add: premiumDisposalSiteOf_def assembleSearch_def Let_def
        resolvePremiumDisposalSite_def split: option.splits)

text \<open>
  Claim C8. The premium provider of a category is null when the geocoded address gives no
  state code, when the state has no landing page of that category, when the page is not
  active, and when the id the page is bound to names no existing row; this holds for the
  company category and for the disposal-site category. None of these cases is an error: a
  search with an address, an API key and a geocoded candidate succeeds whatever the store
  holds.
\<close>

theorem premium_unresolved_is_null:
  "(truthyCode (extractState result) = None
      \<longrightarrow> premiumCompanyOf (assembleSearch db address radiusMiles result) = None
        \<and> premiumDisposalSiteOf (assembleSearch db address radiusMiles result) = None)
   \<and> (truthyCode (extractState result) = Some code
        \<and> getStateLandingPageByStateCode db code = None
      \<longrightarrow> premiumCompanyOf (assembleSearch db address radiusMiles result) = None)
   \<and> (truthyCode (extractState result) = Some code
        \<and> getStateLandingPageByStateCode db code = Some page \<and> slp_active page \<noteq> ''yes''
      \<longrightarrow> premiumCompanyOf (assembleSearch db address radiusMiles result) = None)
   \<and> (truthyCode (extractState result) = Some code
        \<and> getStateLandingPageByStateCode db code = Some page
        \<and> slp_companyId page = Some cid \<and> getCompany db cid = None
      \<longrightarrow> premiumCompanyOf (assembleSearch db address radiusMiles result) = None)
   \<and> (truthyCode (extractState result) = Some code
        \<and> getDisposalSiteLandingPageByStateCode db code = None
      \<longrightarrow> premiumDisposalSiteOf (assembleSearch db address radiusMiles result) = None)
   \<and> (truthyCode (extractState result) = Some code
        \<and> getDisposalSiteLandingPageByStateCode db code = Some spage
        \<and> dlp_active spage \<noteq> ''yes''
      \<longrightarrow> premiumDisposalSiteOf (assembleSearch db address radiusMiles result) = None)
   \<and> (truthyCode (extractState result) = Some code
        \<and> getDisposalSiteLandingPageByStateCode db code = Some spage
        \<and> dlp_disposalSiteId spage = Some sid \<and> getDisposalSite db sid = None
      \<longrightarrow> premiumDisposalSiteOf (assembleSearch db address radiusMiles result) = None)
   \<and> (address \<noteq> [] \<and> k \<noteq> [] \<and> geocode address = GeocodeData ''OK'' (result # rest)
      \<longrightarrow> search_handler (Some k) geocode db
            \<lparr> body_address = Some address, body_radiusMiles = Some radiusMiles \<rparr>
          = ([address], Success (assembleSearch db address radiusMiles result)))"
  unfolding premiumCompanyOf_assemble premiumDisposalSiteOf_assemble
  by (auto simp: lookupLandingPage_def resolvePremiumCompany_def lookupDisposalLandingPage_def
        resolvePremiumDisposalSite_def search_handler_def split: option.splits)

theorem premium_unresolved_is_null_witness:
  "truthyCode (extractState indianapolis) = Some ''IN''
   \<and> getStateLandingPageByStateCode danglingStore ''IN'' = Some indianaPage
   \<and> slp_companyId indianaPage = Some 42 \<and> getCompany danglingStore 42 = None
   \<and> getDisposalSiteLandingPageByStateCode danglingStore ''IN'' = Some indianaSitePage
   \<and> dlp_disposalSiteId indianaSitePage = Some 9 \<and> getDisposalSite danglingStore 9 = None
   \<and> premiumCompanyOf (assembleSearch danglingStore ''Indianapolis, IN'' (Fin 50) indianapolis)
       = None
   \<and> premiumDisposalSiteOf
        (assembleSearch danglingStore ''Indianapolis, IN'' (Fin 50) indianapolis) = None
   \<and> search_handler (Some ''key'') geocoder danglingStore
        \<lparr> body_address = Some ''Indianapolis, IN'', body_radiusMiles = Some (Fin 50) \<rparr>
      = ([''Indianapolis, IN''],
         Success (assembleSearch danglingStore ''Indianapolis, IN'' (Fin 50) indianapolis))
   \<and> res_companies (assembleSearch danglingStore ''Indianapolis, IN'' (Fin 50) indianapolis)
       = [basicCo]
   \<and> truthyCode (extractState midOcean) = None
   \<and> premiumCompanyOf (assembleSearch premiumStore ''45, 90'' (Fin 50) midOcean) = None
   \<and> premiumDisposalSiteOf (assembleSearch premiumStore ''45, 90'' (Fin 50) midOcean) = None
   \<and> getStateLandingPageByStateCode tierStore ''IN'' = None
   \<and> getDisposalSiteLandingPageByStateCode tierStore ''IN'' = None
   \<and> premiumCompanyOf (assembleSearch tierStore ''Indianapolis, IN'' (Fin 50) indianapolis)
       = None
   \<and> premiumDisposalSiteOf (assembleSearch tierStore ''Indianapolis, IN'' (Fin 50) indianapolis)
       = None
   \<and> getStateLandingPageByStateCode inactiveStore ''IN''
       = Some (indianaPage \<lparr> slp_active := ''no'' \<rparr>)
   \<and> getDisposalSiteLandingPageByStateCode inactiveStore ''IN''
       = Some (indianaSitePage \<lparr> dlp_active := ''no'' \<rparr>)
   \<and> getCompany inactiveStore 42 = Some inserv
   \<and> getDisposalSite inactiveStore 9 = Some indianaSite
   \<and> premiumCompanyOf (assembleSearch inactiveStore ''Indianapolis, IN'' (Fin 50) indianapolis)
       = None
   \<and> premiumDisposalSiteOf
        (assembleSearch inactiveStore ''Indianapolis, IN'' (Fin 50) indianapolis) = None"
proof -
  have h: "truthyCode (extractState indianapolis) = Some ''IN''"
    "getStateLandingPageByStateCode danglingStore ''IN'' = Some indianaPage"
    "slp_companyId indianaPage = Some 42" "getCompany danglingStore 42 = None"
    "getDisposalSiteLandingPageByStateCode danglingStore ''IN'' = Some indianaSitePage"
    "dlp_disposalSiteId indianaSitePage = Some 9" "getDisposalSite danglingStore 9 = None"
    "geocoder ''Indianapolis, IN'' = GeocodeData ''OK'' [indianapolis]"
    "truthyCode (extractState midOcean) = None"
    "getStateLandingPageByStateCode tierStore ''IN'' = None"
    "getDisposalSiteLandingPageByStateCode tierStore ''IN'' = None"
    "getStateLandingPageByStateCode inactiveStore ''IN''
       = Some (indianaPage \<lparr> slp_active := ''no'' \<rparr>)"
    "getDisposalSiteLandingPageByStateCode inactiveStore ''IN''
       = Some (indianaSitePage \<lparr> dlp_active := ''no'' \<rparr>)"
    "getCompany inactiveStore 42 = Some inserv"
    "getDisposalSite inactiveStore 9 = Some indianaSite"
    by (simp_all add: search_eval example_rows)
  have c: "res_companies (assembleSearch danglingStore ''Indianapolis, IN'' (Fin 50) indianapolis)
       = [basicCo]"
    by (simp add: search_eval example_rows parseFloat_eval calculateDistance_same)
  note dangling = premium_unresolved_is_null
         [where result = indianapolis and db = danglingStore and address = "''Indianapolis, IN''"
            and radiusMiles = "Fin 50" and code = "''IN''" and page = indianaPage
            and cid = 42 and spage = indianaSitePage and sid = 9 and k = "''key''"
            and geocode = geocoder and rest = "[]"]
  note stateless = premium_unresolved_is_null
         [where result = midOcean and db = premiumStore and address = "''45, 90''"
            and radiusMiles = "Fin 50"]
  note pageless = premium_unresolved_is_null
         [where result = indianapolis and db = tierStore and address = "''Indianapolis, IN''"
            and radiusMiles = "Fin 50" and code = "''IN''"]
  note inactive = premium_unresolved_is_null
         [where result = indianapolis and db = inactiveStore and address = "''Indianapolis, IN''"
            and radiusMiles = "Fin 50" and code = "''IN''"
            and page = "indianaPage \<lparr> slp_active := ''no'' \<rparr>"
            and spage = "indianaSitePage \<lparr> dlp_active := ''no'' \<rparr>"]
  from dangling stateless pageless inactive h c
  show ?thesis by simp
qed

section \<open>Facts about the ordering of companies\<close>

lemma tierRank_range: "tierRank t = Some n \<Longrightarrow> 0 \<le> n \<and> n \<le> 3"
  by (auto simp: tierRank_def tierOrder_def split: if_splits)

lemma tierRank_ranked: "t \<notin> set objectPrototypeMembers \<Longrightarrow> tierRank t \<noteq> None"
  by (simp add: tierRank_def tierOrder_def)

lemma tierRank_inherited: "t \<in> set objectPrototypeMembers \<Longrightarrow> tierRank t = None"
  by (auto simp: tierRank_def tierOrder_def objectPrototypeMembers_def)

lemma set_insert_by: "set (insert_by cmp x ys) = insert x (set ys)"
  by (induction ys) auto

lemma set_array_sort: "set (array_sort cmp xs) = set xs"
  by (induction xs) (simp_all add: array_sort_def set_insert_by)

lemma insert_by_insort_key:
  assumes "\<forall>y\<in>set ys. (nanAsZero (cmp x y) \<le> 0) = (f x \<le> f y)"
  shows "insert_by cmp x ys = insort_key f x ys"
  using assms by (induction ys) simp_all

lemma array_sort_sort_key:
  assumes "\<forall>a\<in>set xs. \<forall>b\<in>set xs. (nanAsZero (cmp a b) \<le> 0) = (f a \<le> f b)"
  shows "array_sort cmp xs = sort_key f xs"
  using assms
proof (induction xs)
  case Nil
  then show ?case by (simp add: array_sort_def)
next
  case (Cons x xs)
  then have ih: "array_sort cmp xs = sort_key f xs" by simp
  have "insert_by cmp x (sort_key f xs) = insort_key f x (sort_key f xs)"
    using Cons.prems by (intro insert_by_insort_key) simp
  with ih show ?case by (simp add: array_sort_def)
qed

lemma compareCompanies_key:
  assumes "tierRank (company_tier a) \<noteq> None" and "tierRank (company_tier b) \<noteq> None"
  shows "(nanAsZero (compareCompanies cid a b) \<le> 0) =
     ((if company_id a = cid then - 1 else 3 - nanAsZero (tierRank (company_tier a)))
        \<le> (if company_id b = cid then - 1 else 3 - nanAsZero (tierRank (company_tier b))))"
proof -
  from assms obtain ra rb where r: "tierRank (company_tier a) = Some ra"
    "tierRank (company_tier b) = Some rb" by auto
  with tierRank_range[of "company_tier a" ra] tierRank_range[of "company_tier b" rb]
  show ?thesis by (auto simp: compareCompanies_def nanAsZero_def)
qed

lemma array_sort_compareCompanies:
  assumes "\<forall>c\<in>set xs. tierRank (company_tier c) \<noteq> None"
  shows "array_sort (compareCompanies cid) xs =
     sort_key (\<lambda>c. if company_id c = cid then - 1
                    else 3 - nanAsZero (tierRank (company_tier c))) xs"
  using assms by (intro array_sort_sort_key) (simp add: compareCompanies_key)

lemma insort_key_cong_order:
  assumes "\<forall>y\<in>set ys. (f x \<le> f y) = (g x \<le> g y)"
  shows "insort_key f x ys = insort_key g x ys"
  using assms by (induction ys) simp_all

lemma sort_key_cong_order:
  assumes "\<forall>x\<in>set xs. \<forall>y\<in>set xs. (f x \<le> f y) = (g x \<le> g y)"
  shows "sort_key f xs = sort_key g xs"
  using assms
proof (induction xs)
  case Nil
  then show ?case by simp
next
  case (Cons x xs)
  then have ih: "sort_key f xs = sort_key g xs" by simp
  have "insort_key f x (sort_key g xs) = insort_key g x (sort_key g xs)"
    using Cons.prems by (intro insort_key_cong_order) simp
  with ih show ?case by simp
qed

lemma sorted_others:
  assumes "\<forall>c\<in>set xs. tierRank (company_tier c) \<noteq> None"
  shows "filter (\<lambda>c. company_id c \<noteq> cid) (array_sort (compareCompanies cid) xs)
     = sort_key (\<lambda>c. - nanAsZero (tierRank (company_tier c)))
         (filter (\<lambda>c. company_id c \<noteq> cid) xs)"
proof -
  have "filter (\<lambda>c. company_id c \<noteq> cid) (array_sort (compareCompanies cid) xs)
       = sort_key (\<lambda>c. if company_id c = cid then - 1
                        else 3 - nanAsZero (tierRank (company_tier c)))
           (filter (\<lambda>c. company_id c \<noteq> cid) xs)"
    by (simp add: array_sort_compareCompanies[OF assms] filter_sort)
  also have "\<dots> = sort_key (\<lambda>c. - nanAsZero (tierRank (company_tier c)))
                     (filter (\<lambda>c. company_id c \<noteq> cid) xs)"
    by (rule sort_key_cong_order) auto
  finally show ?thesis .
qed

lemma set_sortCompanies: "set (sortCompanies p xs) = set xs"
  by (simp add: sortCompanies_def set_array_sort split: option.splits)

lemma getCompany_id: "getCompany db cid = Some P \<Longrightarrow> company_id P = cid \<and> P \<in> set (db_companies db)"
  by (auto simp: getCompany_def find_Some_iff)

text \<open>
  What step 6 does to a resolved premium company: the response carries it inside
  \<open>premiumLandingPage\<close>, and its \<open>companies\<close> are the matched companies other than it.
\<close>

lemma premium_company_is_separated:
  assumes "truthyCode (extractState result) = Some code"
      and "getStateLandingPageByStateCode db code = Some page"
      and "slp_active page = ''yes''"
      and "slp_companyId page = Some cid" and "cid \<noteq> 0"
      and "getCompany db cid = Some P"
      and "P \<in> set (getCompaniesByRadius (db_companies db) (Fin (gr_lat result))
                      (Fin (gr_lng result)) radiusMiles (Some address))"
  shows "premiumCompanyOf (assembleSearch db address radiusMiles result) = Some P
       \<and> P \<notin> set (res_companies (assembleSearch db address radiusMiles result))
       \<and> set (res_companies (assembleSearch db address radiusMiles result))
          = {c \<in> set (getCompaniesByRadius (db_companies db) (Fin (gr_lat result))
                        (Fin (gr_lng result)) radiusMiles (Some address)).
               company_id c \<noteq> company_id P}"
proof -
  have pc: "resolvePremiumCompany db (lookupLandingPage db (truthyCode (extractState result)))
              = Some P"
    using assms by (simp add: lookupLandingPage_def resolvePremiumCompany_def)
  then have a: "premiumCompanyOf (assembleSearch db address radiusMiles result) = Some P"
    by (simp add: premiumCompanyOf_assemble)
  have b: "set (res_companies (assembleSearch db address radiusMiles result))
          = {c \<in> set (getCompaniesByRadius (db_companies db) (Fin (gr_lat result))
                        (Fin (gr_lng result)) radiusMiles (Some address)).
               company_id c \<noteq> company_id P}"
    by (simp add: res_companies_assemble pc set_sortCompanies separatePremium_def)
  from a b show ?thesis by simp
qed

lemma premium_company_is_separated_example:
  "truthyCode (extractState indianapolis) = Some ''IN''
   \<and> getStateLandingPageByStateCode premiumStore ''IN'' = Some indianaPage
   \<and> slp_active indianaPage = ''yes'' \<and> slp_companyId indianaPage = Some 42
   \<and> getCompany premiumStore 42 = Some inserv
   \<and> inserv \<in> set (getCompaniesByRadius (db_companies premiumStore) (Fin (gr_lat indianapolis))
                      (Fin (gr_lng indianapolis)) (Fin 50) (Some ''Indianapolis, IN''))
   \<and> premiumCompanyOf (assembleSearch premiumStore ''Indianapolis, IN'' (Fin 50) indianapolis)
       = Some inserv
   \<and> inserv \<notin> set (res_companies
                      (assembleSearch premiumStore ''Indianapolis, IN'' (Fin 50) indianapolis))"
proof -
  have h: "truthyCode (extractState indianapolis) = Some ''IN''"
    "getStateLandingPageByStateCode premiumStore ''IN'' = Some indianaPage"
    "slp_active indianaPage = ''yes''" "slp_companyId indianaPage = Some 42" "(42::int) \<noteq> 0"
    "getCompany premiumStore 42 = Some inserv"
    by (simp_all add: search_eval example_rows)
  have m: "inserv \<in> set (getCompaniesByRadius (db_companies premiumStore)
             (Fin (gr_lat indianapolis)) (Fin (gr_lng indianapolis)) (Fin 50)
             (Some ''Indianapolis, IN''))"
    by (simp add: search_eval example_rows parseFloat_eval calculateDistance_same)
  from premium_company_is_separated [OF h m] h m show ?thesis by simp
qed

text \<open>
  The comparator of step 6a puts the landing page's company first. It does so when the
  page is not active: the company is then not taken out in step 6, and the sort pins it at
  index 0.
\<close>

lemma inactive_page_company_is_pinned:
  "res_companies (assembleSearch inactiveStore ''Indianapolis, IN'' (Fin 50) indianapolis)
     = [inserv, basicCo]
   \<and> getCompaniesByRadius (db_companies inactiveStore) (Fin 45) (Fin 90) (Fin 50)
        (Some ''Indianapolis, IN'') = [basicCo, inserv]"
  by (simp add: search_eval example_rows parseFloat_eval calculateDistance_same)

text \<open>
  Claim C1. When the state has an active company landing page bound to a company P and P
  is among the companies matched in the radius, the \<open>companies\<close> of the response should
  hold P at index 0, exactly once. The handler does not do this: with an active Indiana
  page bound to company 42 and company 42 matched in the radius, step 6 takes company 42
  out before the sort of step 6a can pin it, and the \<open>companies\<close> of the response do not
  contain it, neither at index 0 nor elsewhere.
\<close>

theorem premium_company_not_pinned:
  "search_handler (Some ''key'') geocoder premiumStore indianapolisRequest
   = ([''Indianapolis, IN''],
      Success \<lparr> res_location = (45, 90, ''Indianapolis, IN, USA''),
                res_state = Some (''IN'', ''Indiana''),
                res_searchType = ''local'',
                res_hasRadiusResults = True,
                res_premiumLandingPage = Some (indianaPage, Some inserv),
                res_disposalSiteLandingPage = None,
                res_companies = [premiumCo, verifiedCo, basicCo],
                res_disposalSites = [],
                res_radius = Fin 50 \<rparr>)
   \<and> getCompaniesByRadius (db_companies premiumStore) (Fin 45) (Fin 90) (Fin 50)
        (Some ''Indianapolis, IN'') = [basicCo, premiumCo, inserv, verifiedCo]
   \<and> slp_active indianaPage = ''yes'' \<and> slp_companyId indianaPage = Some (company_id inserv)
   \<and> inserv \<notin> set [premiumCo, verifiedCo, basicCo]"
  by (simp add: search_eval example_rows parseFloat_eval calculateDistance_same)

lemma res_premiumLandingPage_assemble:
  "res_premiumLandingPage (assembleSearch db address radiusMiles result) =
     (case lookupLandingPage db (truthyCode (extractState result)) of
        None \<Rightarrow> None
      | Some page \<Rightarrow> Some (page, resolvePremiumCompany db (Some page)))"
  by (simp add: assembleSearch_def Let_def split: option.splits)

lemma separatePremium_others:
  assumes "slp_companyId page = Some cid"
  shows "filter (\<lambda>c. company_id c \<noteq> cid)
           (separatePremium (resolvePremiumCompany db (Some page)) xs)
         = filter (\<lambda>c. company_id c \<noteq> cid) xs"
proof (cases "resolvePremiumCompany db (Some page)")
  case None
  then show ?thesis by (simp add: separatePremium_def)
next
  case (Some P)
  with assms have "getCompany db cid = Some P"
    by (simp add: resolvePremiumCompany_def split: if_splits)
  then have "company_id P = cid" by (simp add: getCompany_id)
  with Some show ?thesis by (simp add: separatePremium_def)
qed

lemma sort_key_neg_rank_sorted:
  assumes "\<forall>c\<in>set xs. tierRank (company_tier c) \<noteq> None"
  shows "sorted_wrt (\<lambda>a b. \<exists>ra rb. tierRank (company_tier a) = Some ra \<and>
                             tierRank (company_tier b) = Some rb \<and> rb \<le> ra)
     (sort_key (\<lambda>c. - nanAsZero (tierRank (company_tier c))) xs)"
proof -
  have "sorted_wrt (\<lambda>a b. nanAsZero (tierRank (company_tier b))
                            \<le> nanAsZero (tierRank (company_tier a)))
          (sort_key (\<lambda>c. - nanAsZero (tierRank (company_tier c))) xs)"
    using sorted_sort_key[of "\<lambda>c. - nanAsZero (tierRank (company_tier c))" xs]
    by (simp add: sorted_map)
  then show ?thesis
  proof (rule sorted_wrt_mono_rel[rotated])
    fix a b
    assume ain: "a \<in> set (sort_key (\<lambda>c. - nanAsZero (tierRank (company_tier c))) xs)"
      and bin: "b \<in> set (sort_key (\<lambda>c. - nanAsZero (tierRank (company_tier c))) xs)"
      and le: "nanAsZero (tierRank (company_tier b)) \<le> nanAsZero (tierRank (company_tier a))"
    from ain bin have "a \<in> set xs" and "b \<in> set xs" by simp_all
    with assms have "tierRank (company_tier a) \<noteq> None"
      and "tierRank (company_tier b) \<noteq> None"
      by blast+
    then obtain ra rb where "tierRank (company_tier a) = Some ra"
      "tierRank (company_tier b) = Some rb" by blast
    with le show "\<exists>ra rb. tierRank (company_tier a) = Some ra \<and>
                    tierRank (company_tier b) = Some rb \<and> rb \<le> ra"
      by (simp add: nanAsZero_def)
  qed
qed

lemma sort_key_neg_rank_stable:
  assumes "\<forall>c\<in>set xs. tierRank (company_tier c) \<noteq> None"
  shows "filter (\<lambda>c. tierRank (company_tier c) = Some k)
           (sort_key (\<lambda>c. - nanAsZero (tierRank (company_tier c))) xs)
     = filter (\<lambda>c. tierRank (company_tier c) = Some k) xs"
proof -
  have same: "(tierRank (company_tier c) = Some k)
                = (- nanAsZero (tierRank (company_tier c)) = - k)"
    if "c \<in> set xs" for c
    using that assms by (auto simp: nanAsZero_def)
  have "filter (\<lambda>c. tierRank (company_tier c) = Some k)
           (sort_key (\<lambda>c. - nanAsZero (tierRank (company_tier c))) xs)
      = filter (\<lambda>c. - nanAsZero (tierRank (company_tier c)) = - k)
           (sort_key (\<lambda>c. - nanAsZero (tierRank (company_tier c))) xs)"
    by (rule filter_cong) (simp_all add: same)
  also have "\<dots> = filter (\<lambda>c. - nanAsZero (tierRank (company_tier c)) = - k) xs"
    by (rule sort_key_stable)
  also have "\<dots> = filter (\<lambda>c. tierRank (company_tier c) = Some k) xs"
    by (rule filter_cong) (simp_all add: same)
  finally show ?thesis .
qed

text \<open>
  A tier that is the name of an inherited member has no rank: the comparator answers NaN
  for it, and the order of the sort is then no longer fixed by the ranks.
\<close>

lemma inherited_tier_compares_NaN:
  "tierRank ''constructor'' = None
   \<and> compareCompanies 42 (mkCompany 7 ''constructor'' None None Absent) premiumCo = None
   \<and> compareCompanies 42 premiumCo (mkCompany 7 ''constructor'' None None Absent) = None"
  by (simp add: compareCompanies_def tierRank_def tierOrder_def objectPrototypeMembers_def
        mkCompany_def premiumCo_def)

text \<open>
  Claim C2, as the code has it. The ranking is premium 3, featured 2, verified 1 and 0 for
  basic and for every other tier that is not the name of a member inherited from
  \<open>Object.prototype\<close>. When the state has no company landing page, the companies are
  returned in the order of the matcher, unsorted. When the state has a landing page with a
  company id, and no matched company has the name of an inherited member as its tier, the
  companies other than the page's company are the matched ones sorted by rank, highest
  first, with equal ranks in their input order and no other key.
\<close>

theorem tier_order_needs_landing_page:
  "(tierRank ''premium'' = Some 3 \<and> tierRank ''featured'' = Some 2
      \<and> tierRank ''verified'' = Some 1 \<and> tierRank ''basic'' = Some 0
      \<and> (t \<notin> {''premium'', ''featured'', ''verified''} \<and> t \<notin> set objectPrototypeMembers
           \<longrightarrow> tierRank t = Some 0))
   \<and> (res_premiumLandingPage (assembleSearch db address radiusMiles result) = None
      \<longrightarrow> res_companies (assembleSearch db address radiusMiles result)
          = getCompaniesByRadius (db_companies db) (Fin (gr_lat result)) (Fin (gr_lng result))
              radiusMiles (Some address))
   \<and> (res_premiumLandingPage (assembleSearch db address radiusMiles result) = Some (page, pc)
        \<and> slp_companyId page = Some cid \<and> cid \<noteq> 0
        \<and> distinct (map company_id (db_companies db))
        \<and> (\<forall>c\<in>set (getCompaniesByRadius (db_companies db) (Fin (gr_lat result))
                      (Fin (gr_lng result)) radiusMiles (Some address)).
              company_tier c \<notin> set objectPrototypeMembers)
      \<longrightarrow> filter (\<lambda>c. company_id c \<noteq> cid)
            (res_companies (assembleSearch db address radiusMiles result))
          = sort_key (\<lambda>c. - nanAsZero (tierRank (company_tier c)))
              (filter (\<lambda>c. company_id c \<noteq> cid)
                 (getCompaniesByRadius (db_companies db) (Fin (gr_lat result))
                    (Fin (gr_lng result)) radiusMiles (Some address)))
        \<and> sorted_wrt (\<lambda>a b. \<exists>ra rb. tierRank (company_tier a) = Some ra \<and>
                                  tierRank (company_tier b) = Some rb \<and> rb \<le> ra)
            (filter (\<lambda>c. company_id c \<noteq> cid)
               (res_companies (assembleSearch db address radiusMiles result)))
        \<and> (\<forall>k. filter (\<lambda>c. tierRank (company_tier c) = Some k)
                  (filter (\<lambda>c. company_id c \<noteq> cid)
                     (res_companies (assembleSearch db address radiusMiles result)))
               = filter (\<lambda>c. tierRank (company_tier c) = Some k)
                  (filter (\<lambda>c. company_id c \<noteq> cid)
                     (getCompaniesByRadius (db_companies db) (Fin (gr_lat result))
                        (Fin (gr_lng result)) radiusMiles (Some address)))))"
proof (intro conjI impI)
  assume "t \<notin> {''premium'', ''featured'', ''verified''} \<and> t \<notin> set objectPrototypeMembers"
  then show "tierRank t = Some 0"
    by (simp add: tierRank_def tierOrder_def)
next
  assume "res_premiumLandingPage (assembleSearch db address radiusMiles result) = None"
  then have "lookupLandingPage db (truthyCode (extractState result)) = None"
    by (simp add: res_premiumLandingPage_assemble split: option.splits)
  then show "res_companies (assembleSearch db address radiusMiles result)
          = getCompaniesByRadius (db_companies db) (Fin (gr_lat result)) (Fin (gr_lng result))
              radiusMiles (Some address)"
    by (simp add: res_companies_assemble sortCompanies_def resolvePremiumCompany_def
          separatePremium_def)
next
  let ?inRadius = "getCompaniesByRadius (db_companies db) (Fin (gr_lat result))
                     (Fin (gr_lng result)) radiusMiles (Some address)"
  let ?others = "filter (\<lambda>c. company_id c \<noteq> cid) ?inRadius"
  let ?out = "filter (\<lambda>c. company_id c \<noteq> cid)
                (res_companies (assembleSearch db address radiusMiles result))"
  assume h: "res_premiumLandingPage (assembleSearch db address radiusMiles result)
               = Some (page, pc)
             \<and> slp_companyId page = Some cid \<and> cid \<noteq> 0
             \<and> distinct (map company_id (db_companies db))
             \<and> (\<forall>c\<in>set ?inRadius. company_tier c \<notin> set objectPrototypeMembers)"
  then have lp: "lookupLandingPage db (truthyCode (extractState result)) = Some page"
    by (simp add: res_premiumLandingPage_assemble split: option.splits)
  from h have ranked: "\<forall>c\<in>set ?inRadius. tierRank (company_tier c) \<noteq> None"
    by (simp add: tierRank_ranked)
  then have ranked_sep:
    "\<forall>c\<in>set (separatePremium (resolvePremiumCompany db (Some page)) ?inRadius).
        tierRank (company_tier c) \<noteq> None"
    by (auto simp: separatePremium_def split: option.splits)
  from ranked have ranked_others: "\<forall>c\<in>set ?others. tierRank (company_tier c) \<noteq> None"
    by simp
  have "res_companies (assembleSearch db address radiusMiles result)
          = array_sort (compareCompanies cid)
              (separatePremium (resolvePremiumCompany db (Some page)) ?inRadius)"
    using h by (simp add: res_companies_assemble lp sortCompanies_def)
  then have "?out = sort_key (\<lambda>c. - nanAsZero (tierRank (company_tier c)))
                      (filter (\<lambda>c. company_id c \<noteq> cid)
                         (separatePremium (resolvePremiumCompany db (Some page)) ?inRadius))"
    by (simp only: sorted_others[OF ranked_sep])
  with h show eq: "?out = sort_key (\<lambda>c. - nanAsZero (tierRank (company_tier c))) ?others"
    by (simp add: separatePremium_others)
  show "sorted_wrt (\<lambda>a b. \<exists>ra rb. tierRank (company_tier a) = Some ra \<and>
                                  tierRank (company_tier b) = Some rb \<and> rb \<le> ra) ?out"
    unfolding eq by (rule sort_key_neg_rank_sorted[OF ranked_others])
  show "\<forall>k. filter (\<lambda>c. tierRank (company_tier c) = Some k) ?out
               = filter (\<lambda>c. tierRank (company_tier c) = Some k) ?others"
    unfolding eq by (intro allI) (rule sort_key_neg_rank_stable[OF ranked_others])
qed (simp_all add: tierRank_def tierOrder_def)

theorem tier_order_needs_landing_page_witness:
  "tierRank ''free'' = Some 0
   \<and> res_premiumLandingPage (assembleSearch tierStore ''Indianapolis, IN'' (Fin 50) indianapolis)
       = None
   \<and> res_companies (assembleSearch tierStore ''Indianapolis, IN'' (Fin 50) indianapolis)
       = [basicCo, premiumCo, verifiedCo]
   \<and> res_premiumLandingPage
        (assembleSearch premiumStore ''Indianapolis, IN'' (Fin 50) indianapolis)
       = Some (indianaPage, Some inserv)
   \<and> slp_companyId indianaPage = Some 42
   \<and> distinct (map company_id (db_companies premiumStore))
   \<and> getCompaniesByRadius (db_companies premiumStore) (Fin (gr_lat indianapolis))
        (Fin (gr_lng indianapolis)) (Fin 50) (Some ''Indianapolis, IN'')
       = [basicCo, premiumCo, inserv, verifiedCo]
   \<and> list_all (\<lambda>c. company_tier c \<notin> set objectPrototypeMembers)
        [basicCo, premiumCo, inserv, verifiedCo]
   \<and> filter (\<lambda>c. company_id c \<noteq> 42)
        (res_companies (assembleSearch premiumStore ''Indianapolis, IN'' (Fin 50) indianapolis))
       = [premiumCo, verifiedCo, basicCo]"
proof -
  have a: "res_premiumLandingPage
             (assembleSearch tierStore ''Indianapolis, IN'' (Fin 50) indianapolis) = None"
    by (simp add: search_eval example_rows)
  have m: "getCompaniesByRadius (db_companies tierStore) (Fin (gr_lat indianapolis))
        (Fin (gr_lng indianapolis)) (Fin 50) (Some ''Indianapolis, IN'')
       = [basicCo, premiumCo, verifiedCo]"
    by (simp add: search_eval example_rows parseFloat_eval calculateDistance_same)
  have b: "res_premiumLandingPage
        (assembleSearch premiumStore ''Indianapolis, IN'' (Fin 50) indianapolis)
       = Some (indianaPage, Some inserv)"
    "slp_companyId indianaPage = Some 42" "(42::int) \<noteq> 0"
    "distinct (map company_id (db_companies premiumStore))"
    by (simp_all add: search_eval example_rows)
  have n: "getCompaniesByRadius (db_companies premiumStore) (Fin (gr_lat indianapolis))
        (Fin (gr_lng indianapolis)) (Fin 50) (Some ''Indianapolis, IN'')
       = [basicCo, premiumCo, inserv, verifiedCo]"
    by (simp add: search_eval example_rows parseFloat_eval calculateDistance_same)
  have r: "list_all (\<lambda>c. company_tier c \<notin> set objectPrototypeMembers)
             [basicCo, premiumCo, inserv, verifiedCo]"
    by (simp add: example_rows objectPrototypeMembers_def)
  have s: "sort_key (\<lambda>c. - nanAsZero (tierRank (company_tier c)))
             (filter (\<lambda>c. company_id c \<noteq> 42) [basicCo, premiumCo, inserv, verifiedCo])
           = [premiumCo, verifiedCo, basicCo]"
    by (simp add: example_rows tierRank_def tierOrder_def nanAsZero_def)
  note plain = tier_order_needs_landing_page
         [where t = "''free''" and db = tierStore and address = "''Indianapolis, IN''"
            and radiusMiles = "Fin 50" and result = indianapolis]
  note paged = tier_order_needs_landing_page
         [where t = "''free''" and db = premiumStore and address = "''Indianapolis, IN''"
            and radiusMiles = "Fin 50" and result = indianapolis and page = indianaPage
            and pc = "Some inserv" and cid = 42]
  have free: "''free'' \<notin> {''premium'', ''featured'', ''verified''}
                \<and> ''free'' \<notin> set objectPrototypeMembers"
    by (simp add: objectPrototypeMembers_def)
  from plain free a m have p1: "tierRank ''free'' = Some 0"
    "res_companies (assembleSearch tierStore ''Indianapolis, IN'' (Fin 50) indianapolis)
       = [basicCo, premiumCo, verifiedCo]"
    by simp_all
  from r have r': "\<forall>c\<in>set (getCompaniesByRadius (db_companies premiumStore)
        (Fin (gr_lat indianapolis)) (Fin (gr_lng indianapolis)) (Fin 50)
        (Some ''Indianapolis, IN'')). company_tier c \<notin> set objectPrototypeMembers"
    unfolding n by (simp add: list_all_iff)
  from paged b r' have p2: "filter (\<lambda>c. company_id c \<noteq> 42)
        (res_companies (assembleSearch premiumStore ''Indianapolis, IN'' (Fin 50) indianapolis))
       = sort_key (\<lambda>c. - nanAsZero (tierRank (company_tier c)))
              (filter (\<lambda>c. company_id c \<noteq> 42)
                 (getCompaniesByRadius (db_companies premiumStore) (Fin (gr_lat indianapolis))
                    (Fin (gr_lng indianapolis)) (Fin 50) (Some ''Indianapolis, IN'')))"
    by blast
  from p1 p2 a b n r s show ?thesis by simp
qed

text \<open>
  Claim C2 as stated fails: for matched companies with the tiers basic, premium, verified
  in that order and no landing page for the state, the response keeps that order.
\<close>

theorem tiers_unsorted_without_landing_page:
  "search_handler (Some ''key'') geocoder tierStore indianapolisRequest
   = ([''Indianapolis, IN''],
      Success \<lparr> res_location = (45, 90, ''Indianapolis, IN, USA''),
                res_state = Some (''IN'', ''Indiana''),
                res_searchType = ''local'',
                res_hasRadiusResults = True,
                res_premiumLandingPage = None,
                res_disposalSiteLandingPage = None,
                res_companies = [basicCo, premiumCo, verifiedCo],
                res_disposalSites = [],
                res_radius = Fin 50 \<rparr>)
   \<and> map company_tier [basicCo, premiumCo, verifiedCo] = [''basic'', ''premium'', ''verified'']
   \<and> getCompaniesByRadius (db_companies tierStore) (Fin 45) (Fin 90) (Fin 50)
        (Some ''Indianapolis, IN'') = [basicCo, premiumCo, verifiedCo]"
  by (simp add: search_eval example_rows parseFloat_eval calculateDistance_same)

section \<open>Facts about the locations a matcher looks at\<close>

lemma array_some_total:
  assumes "\<forall>x\<in>set xs. f x = Inr (p x)"
  shows "array_some f xs = Inr (\<exists>x\<in>set xs. p x)"
  using assms by (induction xs) auto

lemma company_loc_plain:
  "e \<noteq> NullEntry \<Longrightarrow>
   company_loc_in_radius lat lng r e =
     Inr (\<exists>x y. loc_lat e = Some x \<and> loc_lng e = Some y \<and> x \<noteq> 0 \<and> y \<noteq> 0 \<and>
                 num_le (calculateDistance lat lng (Fin x) (Fin y)) r)"
  by (cases e) (auto split: option.splits)

lemma company_in_radius_iff:
  assumes "NullEntry \<notin> set (entriesOf (company_additionalLocations c))"
  shows "company_in_radius lat lng r c =
     (main_in_radius lat lng r (company_lat c) (company_lng c) \<or>
      (\<exists>e\<in>set (entriesOf (company_additionalLocations c)).
          \<exists>x y. loc_lat e = Some x \<and> loc_lng e = Some y \<and> x \<noteq> 0 \<and> y \<noteq> 0 \<and>
                num_le (calculateDistance lat lng (Fin x) (Fin y)) r))"
proof (cases "company_additionalLocations c")
  case (Locations ls)
  with assms have "\<forall>e\<in>set ls. e \<noteq> NullEntry" by (auto simp: entriesOf_def)
  then have "array_some (company_loc_in_radius lat lng r) ls =
     Inr (\<exists>e\<in>set ls. \<exists>x y. loc_lat e = Some x \<and> loc_lng e = Some y \<and> x \<noteq> 0 \<and> y \<noteq> 0 \<and>
                 num_le (calculateDistance lat lng (Fin x) (Fin y)) r)"
    by (intro array_some_total) (simp add: company_loc_plain)
  with Locations show ?thesis
    by (auto simp: company_in_radius_def entriesOf_def)
qed (simp_all add: company_in_radius_def entriesOf_def)

lemma site_loc_plain:
  "e \<noteq> NullEntry \<Longrightarrow> site_loc_matches (toLowerCase a) e = Inr (entry_text_matches a e)"
  by (cases e) (auto split: option.splits)

lemma site_in_radius_iff:
  assumes "NullEntry \<notin> set (entriesOf (site_additionalLocations s))"
  shows "site_in_radius lat lng r addr s =
     (main_in_radius lat lng r (site_lat s) (site_lng s) \<or>
      (\<exists>a. addr = Some a \<and> a \<noteq> [] \<and>
           (\<exists>e\<in>set (entriesOf (site_additionalLocations s)). entry_text_matches a e)))"
proof (cases "site_additionalLocations s")
  case (Locations ls)
  with assms have ne: "\<forall>e\<in>set ls. e \<noteq> NullEntry" by (auto simp: entriesOf_def)
  have "array_some (site_loc_matches (toLowerCase a)) ls =
          Inr (\<exists>e\<in>set ls. entry_text_matches a e)" for a
    using ne by (intro array_some_total) (simp add: site_loc_plain)
  with Locations show ?thesis
    by (auto simp: site_in_radius_def entriesOf_def split: option.splits)
qed (auto simp: site_in_radius_def entriesOf_def split: option.splits)

lemma site_some_before_null:
  "(case array_some (site_loc_matches (toLowerCase a)) es of
      Inl err \<Rightarrow> False
    | Inr matchesAdditionalLocation \<Rightarrow> matchesAdditionalLocation)
   = (\<exists>e\<in>set (takeWhile (\<lambda>e. e \<noteq> NullEntry) es). entry_text_matches a e)"
proof (induction es)
  case Nil
  then show ?case by simp
next
  case (Cons e es)
  show ?case
  proof (cases e)
    case NullEntry
    then show ?thesis by simp
  next
    case (Entry city addr la lo)
    then have "site_loc_matches (toLowerCase a) e = Inr (entry_text_matches a e)"
      by (simp add: site_loc_plain)
    with Entry Cons show ?thesis by auto
  qed
qed

lemma site_in_radius_iff_any:
  "site_in_radius lat lng r addr s =
     (main_in_radius lat lng r (site_lat s) (site_lng s) \<or>
      (\<exists>a. addr = Some a \<and> a \<noteq> [] \<and>
           (\<exists>e\<in>set (takeWhile (\<lambda>e. e \<noteq> NullEntry) (entriesOf (site_additionalLocations s))).
               entry_text_matches a e)))"
proof (cases "site_additionalLocations s")
  case (Locations ls)
  then show ?thesis
    by (auto simp: site_in_radius_def entriesOf_def site_some_before_null
             split: option.splits)
qed (auto simp: site_in_radius_def entriesOf_def split: option.splits)

lemma spec_matches_append:
  "spec_matches lat lng r (xs @ ys) = (spec_matches lat lng r xs \<or> spec_matches lat lng r ys)"
  by (simp add: spec_matches_def)

lemma spec_matches_primary:
  "spec_matches lat lng r (spec_primary_location a b) = main_in_radius lat lng r a b"
  by (auto simp: spec_matches_def spec_primary_location_def main_in_radius_def
           split: option.splits)

lemma spec_matches_entries:
  "spec_matches lat lng r (concat (map spec_entry_location es)) =
     (\<exists>e\<in>set es. \<exists>x y. e \<noteq> NullEntry \<and> loc_lat e = Some x \<and> loc_lng e = Some y \<and>
                 num_le (calculateDistance lat lng (Fin x) (Fin y)) r)"
proof (induction es)
  case Nil
  then show ?case by (simp add: spec_matches_def)
next
  case (Cons e es)
  have "spec_matches lat lng r (spec_entry_location e) =
          (\<exists>x y. e \<noteq> NullEntry \<and> loc_lat e = Some x \<and> loc_lng e = Some y \<and>
                 num_le (calculateDistance lat lng (Fin x) (Fin y)) r)"
    by (cases e) (auto simp: spec_matches_def split: option.splits)
  with Cons show ?case
    by (auto simp: spec_matches_append)
qed

lemma plain_entry_iff:
  "plain_entry e = (e \<noteq> NullEntry \<and> loc_lat e \<noteq> Some 0 \<and> loc_lng e \<noteq> Some 0)"
  by (cases e) auto

lemma company_refines_spec:
  assumes "list_all plain_entry (entriesOf (company_additionalLocations c))"
  shows "company_in_radius lat lng r c =
     spec_matches lat lng r
       (spec_resolvable_locations (company_lat c) (company_lng c)
          (company_additionalLocations c))"
proof -
  from assms have pl: "\<forall>e\<in>set (entriesOf (company_additionalLocations c)). plain_entry e"
    by (simp add: list_all_iff)
  then have nn: "NullEntry \<notin> set (entriesOf (company_additionalLocations c))"
    by auto
  have "(\<exists>e\<in>set (entriesOf (company_additionalLocations c)).
          \<exists>x y. loc_lat e = Some x \<and> loc_lng e = Some y \<and> x \<noteq> 0 \<and> y \<noteq> 0 \<and>
                num_le (calculateDistance lat lng (Fin x) (Fin y)) r)
      = (\<exists>e\<in>set (entriesOf (company_additionalLocations c)).
          \<exists>x y. e \<noteq> NullEntry \<and> loc_lat e = Some x \<and> loc_lng e = Some y \<and>
                num_le (calculateDistance lat lng (Fin x) (Fin y)) r)"
    using pl by (auto simp: plain_entry_iff)
  then show ?thesis
    by (simp add: company_in_radius_iff[OF nn] spec_resolvable_locations_def
          spec_matches_append spec_matches_primary spec_matches_entries)
qed

text \<open>
  Claim C4, as the code has it. A company whose additional-location entries are objects
  with non-zero coordinates is matched exactly when one of its resolvable locations, the
  primary one or an additional one that carries coordinates, lies within the radius; in
  particular a company with an additional location exactly at the center matches a search
  of radius 1 wherever its primary location is. A disposal site is matched exactly when
  its primary location lies within the radius or the search address contains the city or
  the address of one of its additional locations that stand before the first \<open>null\<close>
  element of the array, which are all of them when the array has no \<open>null\<close> element; the
  coordinates of the additional locations are not read.
\<close>

theorem company_matches_any_location:
  "(list_all plain_entry (entriesOf (company_additionalLocations c))
      \<longrightarrow> company_in_radius lat lng r c =
            spec_matches lat lng r
              (spec_resolvable_locations (company_lat c) (company_lng c)
                 (company_additionalLocations c)))
   \<and> (company_additionalLocations c = Locations [Entry city addr (Some x) (Some y)]
        \<and> x \<noteq> 0 \<and> y \<noteq> 0
      \<longrightarrow> company_in_radius (Fin x) (Fin y) (Fin 1) c)
   \<and> site_in_radius lat lng r searchAddress s =
         (spec_matches lat lng r (spec_primary_location (site_lat s) (site_lng s)) \<or>
          (\<exists>a. searchAddress = Some a \<and> a \<noteq> [] \<and>
             (\<exists>e\<in>set (takeWhile (\<lambda>e. e \<noteq> NullEntry)
                         (entriesOf (site_additionalLocations s))).
                 entry_text_matches a e)))"
proof (intro conjI impI)
  assume "list_all plain_entry (entriesOf (company_additionalLocations c))"
  then show "company_in_radius lat lng r c =
            spec_matches lat lng r
              (spec_resolvable_locations (company_lat c) (company_lng c)
                 (company_additionalLocations c))"
    by (rule company_refines_spec)
next
  assume "company_additionalLocations c = Locations [Entry city addr (Some x) (Some y)]
        \<and> x \<noteq> 0 \<and> y \<noteq> 0"
  then show "company_in_radius (Fin x) (Fin y) (Fin 1) c"
    by (simp add: company_in_radius_def calculateDistance_same)
next
  show "site_in_radius lat lng r searchAddress s =
         (spec_matches lat lng r (spec_primary_location (site_lat s) (site_lng s)) \<or>
          (\<exists>a. searchAddress = Some a \<and> a \<noteq> [] \<and>
             (\<exists>e\<in>set (takeWhile (\<lambda>e. e \<noteq> NullEntry)
                         (entriesOf (site_additionalLocations s))).
                 entry_text_matches a e)))"
    by (simp only: site_in_radius_iff_any spec_matches_primary)
qed

theorem company_matches_any_location_witness:
  "list_all plain_entry (entriesOf (company_additionalLocations satelliteCo))
   \<and> company_additionalLocations satelliteCo
       = Locations [Entry (Some ''Gary'') None (Some 45) (Some 90)]
   \<and> \<not> main_in_radius (Fin 45) (Fin 90) (Fin 1) (company_lat satelliteCo)
         (company_lng satelliteCo)
   \<and> company_in_radius (Fin 45) (Fin 90) (Fin 1) satelliteCo
   \<and> spec_matches (Fin 45) (Fin 90) (Fin 1)
        (spec_resolvable_locations (company_lat satelliteCo) (company_lng satelliteCo)
           (company_additionalLocations satelliteCo))
   \<and> site_in_radius (Fin 45) (Fin 90) (Fin 1) (Some ''Gary, IN'') satelliteSite
   \<and> \<not> site_in_radius (Fin 45) (Fin 90) (Fin 1) (Some ''Indianapolis, IN'') satelliteSite
   \<and> \<not> site_in_radius (Fin 45) (Fin 90) (Fin 1) (Some ''Gary, IN'') nullFirstSite"
proof -
  have far: "\<not> 3959 * pi / 2 \<le> (1::real)"
    by (rule quarter_circle_far) simp
  have h: "list_all plain_entry (entriesOf (company_additionalLocations satelliteCo))"
    "company_additionalLocations satelliteCo
       = Locations [Entry (Some ''Gary'') None (Some 45) (Some 90)]"
    "(45::real) \<noteq> 0" "(90::real) \<noteq> 0"
    by (simp_all add: example_rows entriesOf_def)
  have m: "\<not> main_in_radius (Fin 45) (Fin 90) (Fin 1) (company_lat satelliteCo)
         (company_lng satelliteCo)"
    "\<not> spec_matches (Fin 45) (Fin 90) (Fin 1)
         (spec_primary_location (site_lat satelliteSite) (site_lng satelliteSite))"
    "\<not> spec_matches (Fin 45) (Fin 90) (Fin 1)
         (spec_primary_location (site_lat nullFirstSite) (site_lng nullFirstSite))"
    using far
    by (simp_all add: example_rows main_in_radius_def spec_eval parseFloat_eval
          calculateDistance_quarter)
  have t: "entry_text_matches ''Gary, IN'' (Entry (Some ''Gary'') None (Some 45) (Some 90))"
    "\<not> entry_text_matches ''Indianapolis, IN'' (Entry (Some ''Gary'') None (Some 45) (Some 90))"
    by (simp_all add: toLowerCase_def lowerChar_def)
  have e: "takeWhile (\<lambda>e. e \<noteq> NullEntry) (entriesOf (site_additionalLocations satelliteSite))
             = [Entry (Some ''Gary'') None (Some 45) (Some 90)]"
    "takeWhile (\<lambda>e. e \<noteq> NullEntry) (entriesOf (site_additionalLocations nullFirstSite)) = []"
    by (simp_all add: example_rows entriesOf_def)
  note co = company_matches_any_location
      [where c = satelliteCo and lat = "Fin 45" and lng = "Fin 90" and r = "Fin 1"
         and city = "Some ''Gary''" and addr = None and x = 45 and y = 90
         and s = satelliteSite and searchAddress = "Some ''Gary, IN''"]
  note si = company_matches_any_location
      [where c = satelliteCo and lat = "Fin 45" and lng = "Fin 90" and r = "Fin 1"
         and city = "Some ''Gary''" and addr = None and x = 45 and y = 90
         and s = satelliteSite and searchAddress = "Some ''Indianapolis, IN''"]
  note nu = company_matches_any_location
      [where c = satelliteCo and lat = "Fin 45" and lng = "Fin 90" and r = "Fin 1"
         and city = "Some ''Gary''" and addr = None and x = 45 and y = 90
         and s = nullFirstSite and searchAddress = "Some ''Gary, IN''"]
  from co si nu h m t show ?thesis by (auto simp: e)
qed

text \<open>
  Claim C4 as stated fails for disposal sites: a site whose additional location is exactly
  at the center has a resolvable location at distance 0, and a search of radius 1 does not
  return it when the search address does not name that location.
\<close>

theorem site_additional_location_in_radius_unmatched:
  "spec_matches (Fin 45) (Fin 90) (Fin 1)
     (spec_resolvable_locations (site_lat satelliteSite) (site_lng satelliteSite)
        (site_additionalLocations satelliteSite))
   \<and> spec_resolvable_locations (site_lat satelliteSite) (site_lng satelliteSite)
        (site_additionalLocations satelliteSite) = [(Fin (- 45), Fin 90), (Fin 45, Fin 90)]
   \<and> calculateDistance (Fin 45) (Fin 90) (Fin 45) (Fin 90) = Fin 0
   \<and> getDisposalSitesByRadius [satelliteSite] (Fin 45) (Fin 90) (Fin 1)
        (Some ''Indianapolis, IN'') = []"
proof -
  have far: "\<not> 3959 * pi / 2 \<le> (1::real)"
    by (rule quarter_circle_far) simp
  then show ?thesis
    by (simp add: example_rows spec_eval parseFloat_eval calculateDistance_quarter
          calculateDistance_same getDisposalSitesByRadius_def site_in_radius_def
          main_in_radius_def toLowerCase_def lowerChar_def)
qed

section \<open>Facts about malformed locations\<close>

lemma calculateDistance_NaN [simp]:
  "calculateDistance lat lng NaN lo = NaN" "calculateDistance lat lng la NaN = NaN"
  by (simp_all add: calculateDistance_def split: number.splits)

lemma array_some_never:
  assumes "\<forall>x\<in>set xs. f x \<noteq> Inr True"
  shows "array_some f xs \<noteq> Inr True"
  using assms by (induction xs) (auto split: sum.splits)

lemma array_some_skip:
  assumes "f e = Inr False"
  shows "array_some f (xs @ e # ys) = array_some f (xs @ ys)"
  using assms by (induction xs) (auto split: sum.splits)

lemma malformed_main_unmatched:
  "malformed_main a b \<Longrightarrow> \<not> main_in_radius lat lng r a b"
  by (auto simp: malformed_main_def main_in_radius_def split: option.splits)

lemma malformed_entry_unmatched:
  "malformed_entry e \<Longrightarrow> company_loc_in_radius lat lng r e \<noteq> Inr True"
  by (cases e) (auto split: option.splits)

lemma malformed_company_unmatched:
  assumes "malformed_main (company_lat c) (company_lng c)"
      and "list_all malformed_entry (entriesOf (company_additionalLocations c))"
  shows "\<not> company_in_radius lat lng r c"
proof (cases "company_additionalLocations c")
  case (Locations ls)
  with assms(2) have "\<forall>e\<in>set ls. company_loc_in_radius lat lng r e \<noteq> Inr True"
    by (simp add: entriesOf_def list_all_iff malformed_entry_unmatched)
  then have "array_some (company_loc_in_radius lat lng r) ls \<noteq> Inr True"
    by (rule array_some_never)
  with Locations assms(1) show ?thesis
    by (auto simp: company_in_radius_def malformed_main_unmatched split: sum.splits)
qed (use assms(1) in \<open>simp_all add: company_in_radius_def malformed_main_unmatched\<close>)

lemma entry_without_coordinate_skipped:
  assumes "la = None \<or> lo = None"
  shows "company_in_radius lat lng r
           (c\<lparr> company_additionalLocations := Locations (xs @ Entry city addr la lo # ys) \<rparr>)
       = company_in_radius lat lng r (c\<lparr> company_additionalLocations := Locations (xs @ ys) \<rparr>)"
proof -
  have "company_loc_in_radius lat lng r (Entry city addr la lo) = Inr False"
    using assms by (auto split: option.splits)
  then have "array_some (company_loc_in_radius lat lng r) (xs @ Entry city addr la lo # ys)
           = array_some (company_loc_in_radius lat lng r) (xs @ ys)"
    by (rule array_some_skip)
  then show ?thesis
    by (simp add: company_in_radius_def)
qed

text \<open>
  Two behaviours of the company matcher at the edge of the entry guard. A \<open>null\<close> element of
  the array throws inside \<open>some\<close>; the \<open>catch\<close> block answers "no additional location
  matched", so the entries after it are not examined. An entry whose latitude or longitude
  is the number 0 fails the truthiness test of the guard and is passed over.
\<close>

lemma null_entry_hides_later_entries:
  "\<not> company_in_radius (Fin 45) (Fin 90) (Fin 1) nullFirstCo
   \<and> company_in_radius (Fin 45) (Fin 90) (Fin 1)
       (nullFirstCo \<lparr> company_additionalLocations :=
          Locations [Entry (Some ''Indianapolis'') None (Some 45) (Some 90)] \<rparr>)"
  by (simp add: example_rows company_in_radius_def main_in_radius_def calculateDistance_same)

lemma zero_coordinate_entry_unmatched:
  "\<not> company_in_radius (Fin 0) (Fin 90) (Fin 1)
       (mkCompany 16 ''basic'' None None (Locations [Entry None None (Some 0) (Some 90)]))
   \<and> calculateDistance (Fin 0) (Fin 90) (Fin 0) (Fin 90) = Fin 0"
  by (simp add: example_rows company_in_radius_def main_in_radius_def calculateDistance_same)

text \<open>
  Claim C6, as the code has it. A company whose primary coordinates are missing or do not
  parse and whose additional locations all lack a coordinate is matched for no center and
  no radius, and the other companies are matched as if it were not in the store. An
  additional location that lacks a coordinate is skipped alone: the company is matched
  exactly when it is matched without that entry. Both matchers decide each provider on its
  own, so a collection is matched piece by piece. A disposal site whose primary
  coordinates are malformed is matched exactly when the search address contains the city
  or the address of one of its additional locations that stand before the first \<open>null\<close>
  element of the array, which are all of them when the array has no \<open>null\<close> element.
\<close>

theorem malformed_locations_are_skipped:
  "(malformed_main (company_lat c) (company_lng c)
      \<and> list_all malformed_entry (entriesOf (company_additionalLocations c))
     \<longrightarrow> \<not> company_in_radius lat lng r c
         \<and> getCompaniesByRadius (cs @ c # cs') lat lng r searchAddress
           = getCompaniesByRadius (cs @ cs') lat lng r searchAddress)
   \<and> (la = None \<or> lo = None
     \<longrightarrow> company_in_radius lat lng r
           (c\<lparr> company_additionalLocations := Locations (xs @ Entry city addr la lo # ys) \<rparr>)
         = company_in_radius lat lng r
             (c\<lparr> company_additionalLocations := Locations (xs @ ys) \<rparr>))
   \<and> getCompaniesByRadius (cs @ cs') lat lng r searchAddress
       = getCompaniesByRadius cs lat lng r searchAddress
         @ getCompaniesByRadius cs' lat lng r searchAddress
   \<and> getDisposalSitesByRadius (ss @ ss') lat lng r searchAddress
       = getDisposalSitesByRadius ss lat lng r searchAddress
         @ getDisposalSitesByRadius ss' lat lng r searchAddress
   \<and> (malformed_main (site_lat s) (site_lng s)
     \<longrightarrow> site_in_radius lat lng r searchAddress s
         = (\<exists>a. searchAddress = Some a \<and> a \<noteq> [] \<and>
              (\<exists>e\<in>set (takeWhile (\<lambda>e. e \<noteq> NullEntry)
                          (entriesOf (site_additionalLocations s))).
                  entry_text_matches a e)))"
proof (intro conjI impI)
  assume h: "malformed_main (company_lat c) (company_lng c)
      \<and> list_all malformed_entry (entriesOf (company_additionalLocations c))"
  then show n: "\<not> company_in_radius lat lng r c"
    by (simp add: malformed_company_unmatched)
  then show "getCompaniesByRadius (cs @ c # cs') lat lng r searchAddress
           = getCompaniesByRadius (cs @ cs') lat lng r searchAddress"
    by (simp add: getCompaniesByRadius_def)
next
  assume "la = None \<or> lo = None"
  then show "company_in_radius lat lng r
           (c\<lparr> company_additionalLocations := Locations (xs @ Entry city addr la lo # ys) \<rparr>)
         = company_in_radius lat lng r
             (c\<lparr> company_additionalLocations := Locations (xs @ ys) \<rparr>)"
    by (rule entry_without_coordinate_skipped)
next
  assume "malformed_main (site_lat s) (site_lng s)"
  then show "site_in_radius lat lng r searchAddress s
         = (\<exists>a. searchAddress = Some a \<and> a \<noteq> [] \<and>
              (\<exists>e\<in>set (takeWhile (\<lambda>e. e \<noteq> NullEntry)
                          (entriesOf (site_additionalLocations s))).
                  entry_text_matches a e))"
    by (simp add: site_in_radius_iff_any malformed_main_unmatched)
qed (simp_all add: getCompaniesByRadius_def getDisposalSitesByRadius_def)

theorem malformed_locations_are_skipped_witness:
  "malformed_main (company_lat malformedCo) (company_lng malformedCo)
   \<and> list_all malformed_entry (entriesOf (company_additionalLocations malformedCo))
   \<and> \<not> company_in_radius (Fin 45) (Fin 90) (Fin 50) malformedCo
   \<and> getCompaniesByRadius [basicCo, malformedCo, premiumCo] (Fin 45) (Fin 90) (Fin 50)
        (Some ''Indianapolis, IN'') = [basicCo, premiumCo]
   \<and> gapCo \<lparr> company_additionalLocations :=
               Locations ([] @ Entry (Some ''Gary'') None None None
                            # [Entry (Some ''Indianapolis'') None (Some 45) (Some 90)]) \<rparr>
       = gapCo
   \<and> company_in_radius (Fin 45) (Fin 90) (Fin 50) gapCo
   \<and> malformed_main (site_lat cityOnlySite) (site_lng cityOnlySite)
   \<and> \<not> site_in_radius (Fin 45) (Fin 90) (Fin 50) (Some ''Gary, IN'') cityOnlySite
   \<and> malformed_main (site_lat nullFirstSite) (site_lng nullFirstSite)
   \<and> \<not> site_in_radius (Fin 45) (Fin 90) (Fin 50) (Some ''Gary, IN'') nullFirstSite"
proof -
  have h: "malformed_main (company_lat malformedCo) (company_lng malformedCo)"
    "list_all malformed_entry (entriesOf (company_additionalLocations malformedCo))"
    "malformed_main (site_lat cityOnlySite) (site_lng cityOnlySite)"
    "malformed_main (site_lat nullFirstSite) (site_lng nullFirstSite)"
    by (simp_all add: example_rows malformed_main_def entriesOf_def parseFloat_eval)
  have g: "gapCo \<lparr> company_additionalLocations :=
               Locations ([] @ Entry (Some ''Gary'') None None None
                            # [Entry (Some ''Indianapolis'') None (Some 45) (Some 90)]) \<rparr>
       = gapCo"
    by (simp add: example_rows)
  have k: "company_in_radius (Fin 45) (Fin 90) (Fin 50)
             (gapCo \<lparr> company_additionalLocations :=
                Locations ([] @ [Entry (Some ''Indianapolis'') None (Some 45) (Some 90)]) \<rparr>)"
    "getCompaniesByRadius ([basicCo] @ [premiumCo]) (Fin 45) (Fin 90) (Fin 50)
        (Some ''Indianapolis, IN'') = [basicCo, premiumCo]"
    by (simp_all add: example_rows search_eval parseFloat_eval calculateDistance_same)
  have t: "takeWhile (\<lambda>e. e \<noteq> NullEntry) (entriesOf (site_additionalLocations cityOnlySite))
             = [Entry (Some ''Indianapolis'') None None None]"
    "takeWhile (\<lambda>e. e \<noteq> NullEntry) (entriesOf (site_additionalLocations nullFirstSite)) = []"
    "\<not> entry_text_matches ''Gary, IN'' (Entry (Some ''Indianapolis'') None None None)"
    by (simp_all add: example_rows entriesOf_def toLowerCase_def lowerChar_def)
  note i = malformed_locations_are_skipped
      [where c = malformedCo and cs = "[basicCo]" and cs' = "[premiumCo]" and lat = "Fin 45"
         and lng = "Fin 90" and r = "Fin 50" and searchAddress = "Some ''Gary, IN''"
         and s = cityOnlySite]
  note ii = malformed_locations_are_skipped
      [where c = gapCo and xs = "[]" and city = "Some ''Gary''" and addr = None
         and la = None and lo = None
         and ys = "[Entry (Some ''Indianapolis'') None (Some 45) (Some 90)]"
         and lat = "Fin 45" and lng = "Fin 90" and r = "Fin 50"]
  note iii = malformed_locations_are_skipped
      [where s = nullFirstSite and lat = "Fin 45" and lng = "Fin 90" and r = "Fin 50"
         and searchAddress = "Some ''Gary, IN''"]
  from iii h have n: "\<not> site_in_radius (Fin 45) (Fin 90) (Fin 50) (Some ''Gary, IN'')
                        nullFirstSite"
    using t by simp
  from i h have a: "\<not> company_in_radius (Fin 45) (Fin 90) (Fin 50) malformedCo"
    "getCompaniesByRadius ([basicCo] @ malformedCo # [premiumCo]) (Fin 45) (Fin 90) (Fin 50)
        (Some ''Gary, IN'') = getCompaniesByRadius ([basicCo] @ [premiumCo]) (Fin 45) (Fin 90)
        (Fin 50) (Some ''Gary, IN'')"
    "\<not> site_in_radius (Fin 45) (Fin 90) (Fin 50) (Some ''Gary, IN'') cityOnlySite"
    using t by simp_all
  from ii have b: "company_in_radius (Fin 45) (Fin 90) (Fin 50)
           (gapCo \<lparr> company_additionalLocations :=
               Locations ([] @ Entry (Some ''Gary'') None None None
                            # [Entry (Some ''Indianapolis'') None (Some 45) (Some 90)]) \<rparr>)"
    using k(1) by simp
  from a b g h k n show ?thesis
    by (simp add: getCompaniesByRadius_def)
qed

text \<open>
  Claim C6 as stated fails for disposal sites: a site with no coordinates at all, primary
  or additional, is returned when the search address contains the city of its additional
  location.
\<close>

theorem site_without_coordinates_is_matched:
  "malformed_main (site_lat cityOnlySite) (site_lng cityOnlySite)
   \<and> list_all malformed_entry (entriesOf (site_additionalLocations cityOnlySite))
   \<and> spec_resolvable_locations (site_lat cityOnlySite) (site_lng cityOnlySite)
        (site_additionalLocations cityOnlySite) = []
   \<and> getDisposalSitesByRadius [cityOnlySite] (Fin 45) (Fin 90) (Fin 1)
        (Some ''Indianapolis, IN'') = [cityOnlySite]"
  by (simp add: example_rows malformed_main_def spec_eval getDisposalSitesByRadius_def
        site_in_radius_def main_in_radius_def toLowerCase_def lowerChar_def)

section \<open>Facts about the additional locations of disposal sites\<close>

lemma site_loc_matches_set_coordinates:
  "site_loc_matches searchLower (set_coordinates la lo e) = site_loc_matches searchLower e"
  by (cases e) simp_all

lemma array_some_map:
  "array_some f (map g xs) = array_some (\<lambda>x. f (g x)) xs"
  by (induction xs) (auto split: sum.splits)

lemma site_in_radius_set_coordinates:
  "site_in_radius lat lng r searchAddress
     (s\<lparr> site_additionalLocations := Locations (map (\<lambda>e. set_coordinates (f e) (g e) e) es) \<rparr>)
   = site_in_radius lat lng r searchAddress (s\<lparr> site_additionalLocations := Locations es \<rparr>)"
  by (simp add: site_in_radius_def array_some_map site_loc_matches_set_coordinates
           split: option.splits)

text \<open>
  Claim C10. The additional locations of a disposal site are matched by text: apart from
  the primary location, a site is matched exactly when the search address, in lower case,
  contains the lower-cased city or address of one of its additional locations, and
  replacing the coordinates of the additional locations changes nothing. So an additional
  location whose city occurs in the search address matches for every center and radius,
  and a site whose primary location is out of the radius is not matched by a search
  centered exactly on an additional location when no search address is supplied.
\<close>

theorem site_additional_locations_match_by_text:
  "(NullEntry \<notin> set (entriesOf (site_additionalLocations s))
      \<and> \<not> main_in_radius lat lng r (site_lat s) (site_lng s)
     \<longrightarrow> site_in_radius lat lng r searchAddress s
         = (\<exists>a. searchAddress = Some a \<and> a \<noteq> [] \<and>
              (\<exists>e\<in>set (entriesOf (site_additionalLocations s)). entry_text_matches a e)))
   \<and> site_in_radius lat lng r searchAddress
        (s\<lparr> site_additionalLocations := Locations (map (\<lambda>e. set_coordinates (f e) (g e) e) es) \<rparr>)
      = site_in_radius lat lng r searchAddress (s\<lparr> site_additionalLocations := Locations es \<rparr>)
   \<and> (site_additionalLocations s = Locations [Entry (Some city) addr la lo]
        \<and> city \<noteq> [] \<and> str_includes (toLowerCase a) (toLowerCase city)
     \<longrightarrow> site_in_radius lat lng r (Some a) s)
   \<and> (site_additionalLocations s = Locations [Entry city' addr (Some x) (Some y)]
        \<and> \<not> main_in_radius (Fin x) (Fin y) r (site_lat s) (site_lng s)
     \<longrightarrow> \<not> site_in_radius (Fin x) (Fin y) r None s
         \<and> \<not> site_in_radius (Fin x) (Fin y) r (Some []) s)"
proof (intro conjI impI)
  assume "NullEntry \<notin> set (entriesOf (site_additionalLocations s))
      \<and> \<not> main_in_radius lat lng r (site_lat s) (site_lng s)"
  then show "site_in_radius lat lng r searchAddress s
         = (\<exists>a. searchAddress = Some a \<and> a \<noteq> [] \<and>
              (\<exists>e\<in>set (entriesOf (site_additionalLocations s)). entry_text_matches a e))"
    by (simp add: site_in_radius_iff)
next
  show "site_in_radius lat lng r searchAddress
        (s\<lparr> site_additionalLocations := Locations (map (\<lambda>e. set_coordinates (f e) (g e) e) es) \<rparr>)
      = site_in_radius lat lng r searchAddress (s\<lparr> site_additionalLocations := Locations es \<rparr>)"
    by (rule site_in_radius_set_coordinates)
next
  assume h: "site_additionalLocations s = Locations [Entry (Some city) addr la lo]
        \<and> city \<noteq> [] \<and> str_includes (toLowerCase a) (toLowerCase city)"
  then have "a \<noteq> []"
    by (auto simp: toLowerCase_def)
  with h show "site_in_radius lat lng r (Some a) s"
    by (simp add: site_in_radius_def)
next
  assume h: "site_additionalLocations s = Locations [Entry city' addr (Some x) (Some y)]
        \<and> \<not> main_in_radius (Fin x) (Fin y) r (site_lat s) (site_lng s)"
  then show "\<not> site_in_radius (Fin x) (Fin y) r None s"
    by (simp add: site_in_radius_def)
  from h show "\<not> site_in_radius (Fin x) (Fin y) r (Some []) s"
    by (simp add: site_in_radius_def)
qed

theorem site_additional_locations_match_by_text_witness:
  "site_additionalLocations cityOnlySite = Locations [Entry (Some ''Indianapolis'') None None None]
   \<and> str_includes (toLowerCase ''INDIANAPOLIS, in'') (toLowerCase ''Indianapolis'')
   \<and> site_in_radius (Fin (- 45)) (Fin 90) (Fin 1) (Some ''INDIANAPOLIS, in'') cityOnlySite
   \<and> NullEntry \<notin> set (entriesOf (site_additionalLocations cityOnlySite))
   \<and> \<not> main_in_radius (Fin (- 45)) (Fin 90) (Fin 1) (site_lat cityOnlySite)
         (site_lng cityOnlySite)
   \<and> site_additionalLocations satelliteSite
       = Locations [Entry (Some ''Gary'') None (Some 45) (Some 90)]
   \<and> \<not> main_in_radius (Fin 45) (Fin 90) (Fin 1) (site_lat satelliteSite) (site_lng satelliteSite)
   \<and> \<not> site_in_radius (Fin 45) (Fin 90) (Fin 1) None satelliteSite
   \<and> \<not> site_in_radius (Fin 45) (Fin 90) (Fin 1) (Some []) satelliteSite"
proof -
  have far: "\<not> 3959 * pi / 2 \<le> (1::real)"
    by (rule quarter_circle_far) simp
  have h: "site_additionalLocations cityOnlySite
             = Locations [Entry (Some ''Indianapolis'') None None None]"
    "''Indianapolis'' \<noteq> []"
    "str_includes (toLowerCase ''INDIANAPOLIS, in'') (toLowerCase ''Indianapolis'')"
    "NullEntry \<notin> set (entriesOf (site_additionalLocations cityOnlySite))"
    "\<not> main_in_radius (Fin (- 45)) (Fin 90) (Fin 1) (site_lat cityOnlySite)
         (site_lng cityOnlySite)"
    "site_additionalLocations satelliteSite
       = Locations [Entry (Some ''Gary'') None (Some 45) (Some 90)]"
    by (simp_all add: example_rows entriesOf_def main_in_radius_def toLowerCase_def
          lowerChar_def)
  have m: "\<not> main_in_radius (Fin 45) (Fin 90) (Fin 1) (site_lat satelliteSite)
             (site_lng satelliteSite)"
    using far
    by (simp add: example_rows main_in_radius_def parseFloat_eval calculateDistance_quarter)
  note anywhere = site_additional_locations_match_by_text
      [where s = cityOnlySite and lat = "Fin (- 45)" and lng = "Fin 90" and r = "Fin 1"
         and searchAddress = "Some ''INDIANAPOLIS, in''" and city = "''Indianapolis''"
         and addr = None and la = None and lo = None and a = "''INDIANAPOLIS, in''"
         and f = loc_lat and g = loc_lng and es = "[]"]
  note centred = site_additional_locations_match_by_text
      [where s = satelliteSite and r = "Fin 1" and city' = "Some ''Gary''" and addr = None
         and x = 45 and y = 90 and f = loc_lat and g = loc_lng and es = "[]"
         and lat = "Fin 45" and lng = "Fin 90" and searchAddress = None and a = "[]"
         and city = "[]" and la = None and lo = None]
  from anywhere centred h m show ?thesis by auto
qed

end
